theory Spec2Isabelle
  imports Complex_Main "HOL-Library.Sublist"
begin

section \<open>The circuit breaker construct\<close>

text \<open>
  The construct \<^verbatim>\<open>CircuitBreakerSQSLambda\<close> (cdk/lib/circuit-breaker/circuit-breaker.ts)
  builds a Step Functions state machine out of thirteen states. The embedding keeps one
  constructor per state, one equation of \<open>step\<close> per state, and runs the machine under the
  semantics of the Amazon States Language: a Task whose call fails retries it while a
  Retry matches the error and has attempts left, then follows its Catch, and fails the
  execution when it has none; a state without a successor ends it with
  success; a path that does not resolve in the state input is a runtime error that no Catch
  intercepts.
\<close>

subsection \<open>Configuration\<close>

record CircuitBreakerLambdaProps =
  rejitter :: bool
  rejitterInitialBackoffDelay :: "int option"
  rejitterDelay :: "int option"
  initialBackoffDelay :: "int option"

text \<open>\<^verbatim>\<open>props.initialBackoffDelay ?? 10\<close>\<close>

definition defaultTimeout :: "CircuitBreakerLambdaProps \<Rightarrow> int" where
  "defaultTimeout props = (case initialBackoffDelay props of Some d \<Rightarrow> d | None \<Rightarrow> 10)"

text \<open>\<^verbatim>\<open>props.rejitterInitialBackoffDelay ?? 60\<close>\<close>

definition backoffDelay :: "CircuitBreakerLambdaProps \<Rightarrow> int" where
  "backoffDelay props = (case rejitterInitialBackoffDelay props of Some d \<Rightarrow> d | None \<Rightarrow> 60)"

text \<open>\<^verbatim>\<open>props.rejitterDelay ?? 120\<close>\<close>

definition rejitterRange :: "CircuitBreakerLambdaProps \<Rightarrow> int" where
  "rejitterRange props = (case rejitterDelay props of Some d \<Rightarrow> d | None \<Rightarrow> 120)"

subsection \<open>States, state input and side effects\<close>

datatype state_id =
    DisableMapping            \<comment> \<open>"Disable SQS Event Source Mapping (Break Circuit)"\<close>
  | WaitState                 \<comment> \<open>"Wait N Seconds"\<close>
  | GetTesterMessage          \<comment> \<open>"Get SQS Message to Test Circuit"\<close>
  | TriggerLambda             \<comment> \<open>"Test Whether service is fixed"\<close>
  | IncrementFailureAndTime   \<comment> \<open>"On example Fail, Increment Attempt Counter"\<close>
  | ExceededRetryChoice       \<comment> \<open>"Has Exceeded Retry Attempts?"\<close>
  | WaitAndRetry              \<comment> \<open>"Exponential Backoff"\<close>
  | ExceededRetryAttempts     \<comment> \<open>the Fail state "Exceeded Retry Attempts"\<close>
  | DeleteMessageSqs          \<comment> \<open>"Delete Successfully Processed SQS Message"\<close>
  | EnableRejitter            \<comment> \<open>"Rejitter Messages from SQS and ReQueue"\<close>
  | WaitAndDisableJitter      \<comment> \<open>"Wait 60 Seconds"\<close>
  | DisableRejitter           \<comment> \<open>"Stop Rejitter Messages from SQS and ReQueue"\<close>
  | EnabledMapping            \<comment> \<open>"Enable SQS Event Source Mapping (Fix Circuit)"\<close>

datatype status = Running state_id | Succeeded | Failed

record message =
  Body :: string
  ReceiptHandle :: string

text \<open>
  The state input once the probe message has been fetched: the three fields that the
  result selector of \<open>GetTesterMessage\<close> writes and that the retry loop reads.
\<close>

record incident =
  Messages :: "message list"
  Attempt :: int
  RetryTime :: int

text \<open>
  The two event source mappings: the one of the triggering function (the consumer gate)
  and the one of the rejitter function (the secondary drain).
\<close>

datatype mapping = SqsEventSource | RejitterSqsEventSource

datatype event =
    UpdateEventSourceMapping mapping bool bool
      \<comment> \<open>the mapping, the parameter \<^verbatim>\<open>Enabled\<close>, whether the call succeeded\<close>
  | Waited state_id int
      \<comment> \<open>a Wait state and the seconds it waited\<close>
  | RetryWaited int
      \<comment> \<open>the interval the Retry of \<^verbatim>\<open>receiveMessage\<close> waited before calling again\<close>
  | ReceiveMessage int bool
      \<comment> \<open>the parameter \<^verbatim>\<open>MaxNumberOfMessages\<close>, whether the call succeeded\<close>
  | LambdaInvoke string bool
      \<comment> \<open>the body in \<^verbatim>\<open>Records[0]\<close>, whether the function returned without error\<close>
  | InvokeRetryWaited int
      \<comment> \<open>the interval the Retry of the invocation waited before invoking again\<close>
  | DeleteMessage string bool
      \<comment> \<open>the parameter \<^verbatim>\<open>ReceiptHandle\<close>, whether the call succeeded\<close>

text \<open>
  What the services outside the state machine answer. Each \<^verbatim>\<open>updateEventSourceMapping\<close>
  state runs at most once in an execution, so its answer is indexed by the state; the
  answers to \<^verbatim>\<open>receiveMessage\<close> and to the invocations of the triggering function are
  indexed by the number of earlier calls. An invocation that does not return fails either
  with an error of the function itself or, when \<open>service_error\<close> holds of it, with one of
  the errors of the Lambda service that the Retry of \<open>TriggerLambda\<close> matches.
\<close>

record environment =
  toggle_ok :: "state_id \<Rightarrow> bool"
  receive_ok :: "nat \<Rightarrow> bool"
  worker_ok :: "nat \<Rightarrow> bool"
  service_error :: "nat \<Rightarrow> bool"
  delete_ok :: bool
  queue :: "message list"

record execution =
  status :: status
  input :: "incident option"
  retried :: nat
  trace :: "event list"

fun is_invoke :: "event \<Rightarrow> bool" where
  "is_invoke (LambdaInvoke b ok) = True"
| "is_invoke e = False"

definition invocations :: "event list \<Rightarrow> event list" where
  "invocations tr = filter is_invoke tr"

subsection \<open>The tasks\<close>

text \<open>
  \<^verbatim>\<open>toggleEventSourceMapping\<close>: a \<^verbatim>\<open>CallAwsService\<close> with no Retry and no Catch; its
  result replaces the state input.
\<close>

definition toggleEventSourceMapping ::
  "environment \<Rightarrow> state_id \<Rightarrow> mapping \<Rightarrow> bool \<Rightarrow> status \<Rightarrow> execution \<Rightarrow> execution" where
  "toggleEventSourceMapping env sid eventSource enabled nxt x =
     (if toggle_ok env sid
      then x\<lparr>status := nxt, input := None,
             trace := trace x @ [UpdateEventSourceMapping eventSource enabled True]\<rparr>
      else x\<lparr>status := Failed,
             trace := trace x @ [UpdateEventSourceMapping eventSource enabled False]\<rparr>)"

text \<open>
  \<^verbatim>\<open>performSqsActionTask\<close>: \<^verbatim>\<open>receiveMessage\<close> with \<^verbatim>\<open>MaxNumberOfMessages: 1\<close>, the result
  selector \<^verbatim>\<open>{Messages.$: $.Messages, Attempt: 1, RetryTime: 10}\<close> and the retrier
  \<^verbatim>\<open>{interval: 10 s, maxAttempts: 5, backoffRate: 2}\<close>. The queue answers with at most
  \<^verbatim>\<open>MaxNumberOfMessages\<close> messages; an answer without messages leaves \<^verbatim>\<open>$.Messages\<close>
  unresolved.
\<close>

definition MaxNumberOfMessages :: int where
  "MaxNumberOfMessages = 1"

definition retry_interval :: int where
  "retry_interval = 10"

definition retry_maxAttempts :: nat where
  "retry_maxAttempts = 5"

definition retry_backoffRate :: int where
  "retry_backoffRate = 2"

definition performSqsActionTask :: "environment \<Rightarrow> status \<Rightarrow> execution \<Rightarrow> execution" where
  "performSqsActionTask env nxt x =
     (if receive_ok env (retried x)
      then (case take (nat MaxNumberOfMessages) (queue env) of
              [] \<Rightarrow> x\<lparr>status := Failed,
                      trace := trace x @ [ReceiveMessage MaxNumberOfMessages True]\<rparr>
            | m # ms \<Rightarrow>
                x\<lparr>status := nxt,
                  input := Some \<lparr>Messages = m # ms, Attempt = 1, RetryTime = 10\<rparr>,
                  retried := 0,
                  trace := trace x @ [ReceiveMessage MaxNumberOfMessages True]\<rparr>)
      else if retried x < retry_maxAttempts
      then x\<lparr>retried := retried x + 1,
             trace := trace x @ [ReceiveMessage MaxNumberOfMessages False,
                                 RetryWaited (retry_interval * retry_backoffRate ^ retried x)]\<rparr>
      else x\<lparr>status := Failed,
             trace := trace x @ [ReceiveMessage MaxNumberOfMessages False]\<rparr>)"

text \<open>
  \<^verbatim>\<open>triggerLambda\<close>: invokes the triggering function with
  \<^verbatim>\<open>{Records: [{body: $.Messages[0].Body}]}\<close>; the result is discarded, so is the error
  when the Catch routes to \<open>catch\<close>. The construct leaves \<^verbatim>\<open>retryOnServiceExceptions\<close>
  unset, so \<^verbatim>\<open>LambdaInvoke\<close> adds its default retrier ahead of the Catch: the errors
  \<^verbatim>\<open>Lambda.ClientExecutionTimeoutException\<close>, \<^verbatim>\<open>Lambda.ServiceException\<close>,
  \<^verbatim>\<open>Lambda.AWSLambdaException\<close> and \<^verbatim>\<open>Lambda.SdkClientException\<close> are retried with
  \<^verbatim>\<open>{interval: 2 s, maxAttempts: 6, backoffRate: 2}\<close>. An error of the function matches
  no retrier and goes to the Catch at once, as does a service error once the retries are
  used up.
\<close>

definition invoke_interval :: int where
  "invoke_interval = 2"

definition invoke_maxAttempts :: nat where
  "invoke_maxAttempts = 6"

definition invoke_backoffRate :: int where
  "invoke_backoffRate = 2"

definition triggerLambda :: "environment \<Rightarrow> status \<Rightarrow> status \<Rightarrow> execution \<Rightarrow> execution" where
  "triggerLambda env nxt catch x =
     (case input x of
        None \<Rightarrow> x\<lparr>status := Failed\<rparr>
      | Some inc \<Rightarrow>
          (case Messages inc of
             [] \<Rightarrow> x\<lparr>status := Failed\<rparr>
           | m # _ \<Rightarrow>
               if worker_ok env (length (invocations (trace x)))
               then x\<lparr>status := nxt, retried := 0,
                      trace := trace x @ [LambdaInvoke (Body m) True]\<rparr>
               else if service_error env (length (invocations (trace x)))
                       \<and> retried x < invoke_maxAttempts
               then x\<lparr>retried := retried x + 1,
                      trace := trace x @ [LambdaInvoke (Body m) False,
                                          InvokeRetryWaited
                                            (invoke_interval * invoke_backoffRate ^ retried x)]\<rparr>
               else x\<lparr>status := catch, retried := 0,
                      trace := trace x @ [LambdaInvoke (Body m) False]\<rparr>))"

text \<open>
  \<^verbatim>\<open>incrementFailureAndTime\<close>: the Pass state with parameters \<^verbatim>\<open>Messages = $.Messages\<close>,
  \<^verbatim>\<open>Attempt = States.MathAdd($.Attempt, 1)\<close> and
  \<^verbatim>\<open>RetryTime = States.MathAdd($.RetryTime, $.RetryTime)\<close>.
\<close>

definition incrementFailureAndTime :: "incident \<Rightarrow> incident" where
  "incrementFailureAndTime inc =
     \<lparr>Messages = Messages inc, Attempt = Attempt inc + 1,
      RetryTime = RetryTime inc + RetryTime inc\<rparr>"

text \<open>\<^verbatim>\<open>deleteSqsTaskAction\<close>: no Retry, no Catch; its result replaces the state input.\<close>

definition deleteSqsTaskAction :: "environment \<Rightarrow> status \<Rightarrow> execution \<Rightarrow> execution" where
  "deleteSqsTaskAction env nxt x =
     (case input x of
        None \<Rightarrow> x\<lparr>status := Failed\<rparr>
      | Some inc \<Rightarrow>
          (case Messages inc of
             [] \<Rightarrow> x\<lparr>status := Failed\<rparr>
           | m # _ \<Rightarrow>
               if delete_ok env
               then x\<lparr>status := nxt, input := None,
                      trace := trace x @ [DeleteMessage (ReceiptHandle m) True]\<rparr>
               else x\<lparr>status := Failed,
                      trace := trace x @ [DeleteMessage (ReceiptHandle m) False]\<rparr>))"

subsection \<open>The chain\<close>

text \<open>
  One step of the machine at state \<open>s\<close>. The successors are those of the chain
  \<^verbatim>\<open>disableMapping, waitState, getTesterMessage, triggerLambda, deleteMessageSqs,
  [enableRejitter, waitAndDisableJitter, disableRejitter,] enabledMapping\<close>,
  of the Catch of \<open>triggerLambda\<close> and of the Choice.
\<close>

fun step :: "CircuitBreakerLambdaProps \<Rightarrow> environment \<Rightarrow> state_id \<Rightarrow> execution \<Rightarrow> execution" where
  "step props env DisableMapping x =
     toggleEventSourceMapping env DisableMapping SqsEventSource False (Running WaitState) x"
| "step props env WaitState x =
     x\<lparr>status := Running GetTesterMessage,
       trace := trace x @ [Waited WaitState (defaultTimeout props)]\<rparr>"
| "step props env GetTesterMessage x =
     performSqsActionTask env (Running TriggerLambda) x"
| "step props env TriggerLambda x =
     triggerLambda env (Running DeleteMessageSqs) (Running IncrementFailureAndTime) x"
| "step props env IncrementFailureAndTime x =
     (case input x of
        None \<Rightarrow> x\<lparr>status := Failed\<rparr>
      | Some inc \<Rightarrow>
          x\<lparr>status := Running ExceededRetryChoice,
            input := Some (incrementFailureAndTime inc)\<rparr>)"
| "step props env ExceededRetryChoice x =
     (case input x of
        None \<Rightarrow> x\<lparr>status := Failed\<rparr>
      | Some inc \<Rightarrow>
          if Attempt inc < 10 then x\<lparr>status := Running WaitAndRetry\<rparr>
          else x\<lparr>status := Running ExceededRetryAttempts\<rparr>)"
| "step props env WaitAndRetry x =
     (case input x of
        None \<Rightarrow> x\<lparr>status := Failed\<rparr>
      | Some inc \<Rightarrow>
          x\<lparr>status := Running TriggerLambda,
            trace := trace x @ [Waited WaitAndRetry (RetryTime inc)]\<rparr>)"
| "step props env ExceededRetryAttempts x = x\<lparr>status := Failed\<rparr>"
| "step props env DeleteMessageSqs x =
     deleteSqsTaskAction env
       (Running (if rejitter props then EnableRejitter else EnabledMapping)) x"
| "step props env EnableRejitter x =
     toggleEventSourceMapping env EnableRejitter RejitterSqsEventSource True
       (Running WaitAndDisableJitter) x"
| "step props env WaitAndDisableJitter x =
     x\<lparr>status := Running DisableRejitter,
       trace := trace x @ [Waited WaitAndDisableJitter (backoffDelay props)]\<rparr>"
| "step props env DisableRejitter x =
     toggleEventSourceMapping env DisableRejitter RejitterSqsEventSource False
       (Running EnabledMapping) x"
| "step props env EnabledMapping x =
     toggleEventSourceMapping env EnabledMapping SqsEventSource True Succeeded x"

text \<open>
  The number of steps an execution can still take: the retry loop is bounded by the
  distance of \<open>Attempt\<close> from 10, the retriers of \<open>GetTesterMessage\<close> and of
  \<open>TriggerLambda\<close> by their remaining retries.
\<close>

definition loop_bound :: "incident option \<Rightarrow> nat" where
  "loop_bound d = (case d of None \<Rightarrow> 0 | Some inc \<Rightarrow> 11 * nat (10 - Attempt inc))"

fun state_bound :: "state_id \<Rightarrow> incident option \<Rightarrow> nat \<Rightarrow> nat" where
  "state_bound DisableMapping d r = 131"
| "state_bound WaitState d r = 130"
| "state_bound GetTesterMessage d r = 120 + (5 - r)"
| "state_bound TriggerLambda d r = loop_bound d + 7 + (6 - r)"
| "state_bound IncrementFailureAndTime d r = loop_bound d + 6"
| "state_bound ExceededRetryChoice d r = (if loop_bound d = 0 then 2 else loop_bound d + 15)"
| "state_bound WaitAndRetry d r = loop_bound d + 14"
| "state_bound ExceededRetryAttempts d r = 1"
| "state_bound DeleteMessageSqs d r = 5"
| "state_bound EnableRejitter d r = 4"
| "state_bound WaitAndDisableJitter d r = 3"
| "state_bound DisableRejitter d r = 2"
| "state_bound EnabledMapping d r = 1"

definition steps_left :: "execution \<Rightarrow> nat" where
  "steps_left x =
     (case status x of
        Running s \<Rightarrow> state_bound s (input x) (retried x)
      | Succeeded \<Rightarrow> 0
      | Failed \<Rightarrow> 0)"

function exec :: "CircuitBreakerLambdaProps \<Rightarrow> environment \<Rightarrow> execution \<Rightarrow> execution" where
  "exec props env x =
     (case status x of
        Running s \<Rightarrow> exec props env (step props env s x)
      | Succeeded \<Rightarrow> x
      | Failed \<Rightarrow> x)"
  by pat_completeness auto
termination
proof (relation "measure (\<lambda>(props, env, x). steps_left x)")
  show "wf (measure (\<lambda>(props, env, x). steps_left x))"
    by simp
next
  fix props :: CircuitBreakerLambdaProps and env :: environment and x :: execution
    and s :: state_id
  assume "status x = Running s"
  then have "steps_left (step props env s x) < steps_left x"
    by (cases s)
       (auto simp: steps_left_def loop_bound_def toggleEventSourceMapping_def
          performSqsActionTask_def triggerLambda_def deleteSqsTaskAction_def
          incrementFailureAndTime_def retry_maxAttempts_def invoke_maxAttempts_def
          split: option.splits list.splits)
  then show "((props, env, step props env s x), (props, env, x))
             \<in> measure (\<lambda>(props, env, x). steps_left x)"
    by simp
qed

text \<open>An execution starts at the first state of the chain, on the event that triggered it.\<close>

definition start :: execution where
  "start = \<lparr>status = Running DisableMapping, input = None, retried = 0, trace = []\<rparr>"

definition run :: "CircuitBreakerLambdaProps \<Rightarrow> environment \<Rightarrow> execution" where
  "run props env = exec props env start"

subsection \<open>What a trace shows\<close>

text \<open>The seconds waited by the Wait state \<open>s\<close>, in order.\<close>

fun waited_at :: "state_id \<Rightarrow> event \<Rightarrow> int list" where
  "waited_at s (Waited s' n) = (if s' = s then [n] else [])"
| "waited_at s e = []"

definition waits :: "state_id \<Rightarrow> event list \<Rightarrow> int list" where
  "waits s tr = concat (map (waited_at s) tr)"

text \<open>The intervals waited by the retrier of \<open>GetTesterMessage\<close>, in order.\<close>

fun retry_waited :: "event \<Rightarrow> int list" where
  "retry_waited (RetryWaited n) = [n]"
| "retry_waited e = []"

definition retry_waits :: "event list \<Rightarrow> int list" where
  "retry_waits tr = concat (map retry_waited tr)"

text \<open>The intervals waited by the retrier of \<open>TriggerLambda\<close>, in order.\<close>

fun invoke_retry_waited :: "event \<Rightarrow> int list" where
  "invoke_retry_waited (InvokeRetryWaited n) = [n]"
| "invoke_retry_waited e = []"

definition invoke_retry_waits :: "event list \<Rightarrow> int list" where
  "invoke_retry_waits tr = concat (map invoke_retry_waited tr)"

text \<open>The kinds of calls, and the calls of each kind in a trace.\<close>

fun is_receive :: "event \<Rightarrow> bool" where
  "is_receive (ReceiveMessage n ok) = True"
| "is_receive e = False"

fun is_delete :: "event \<Rightarrow> bool" where
  "is_delete (DeleteMessage h ok) = True"
| "is_delete e = False"

fun is_toggle :: "mapping \<Rightarrow> bool \<Rightarrow> event \<Rightarrow> bool" where
  "is_toggle mp en (UpdateEventSourceMapping mp' en' ok) = (mp' = mp \<and> en' = en)"
| "is_toggle mp en e = False"

definition receives :: "event list \<Rightarrow> event list" where
  "receives tr = filter is_receive tr"

definition deletes :: "event list \<Rightarrow> event list" where
  "deletes tr = filter is_delete tr"

definition toggles :: "mapping \<Rightarrow> bool \<Rightarrow> event list \<Rightarrow> event list" where
  "toggles mp en tr = filter (is_toggle mp en) tr"

text \<open>The trace from the first invocation of the triggering function on.\<close>

definition since_first_probe :: "event list \<Rightarrow> event list" where
  "since_first_probe tr = dropWhile (\<lambda>e. \<not> is_invoke e) tr"

text \<open>
  The state of an event source mapping after a trace, from its state \<open>b\<close> before: a call
  of \<^verbatim>\<open>updateEventSourceMapping\<close> that succeeds sets it to its parameter \<^verbatim>\<open>Enabled\<close>, a
  call that fails leaves it as it was.
\<close>

fun toggled :: "mapping \<Rightarrow> bool \<Rightarrow> event \<Rightarrow> bool" where
  "toggled mp b (UpdateEventSourceMapping mp' en ok) = (if mp' = mp \<and> ok then en else b)"
| "toggled mp b e = b"

definition mapping_enabled :: "mapping \<Rightarrow> bool \<Rightarrow> event list \<Rightarrow> bool" where
  "mapping_enabled mp b tr = foldl (toggled mp) b tr"

text \<open>
  \<^verbatim>\<open>new SqsEventSource(sqs, { enabled: false })\<close> in \<^verbatim>\<open>createRejitterLogic\<close>: the state in
  which the mapping of the rejitter function is created.
\<close>

definition rejitterSqsEventSource_created :: bool where
  "rejitterSqsEventSource_created = False"

section \<open>The rejitter function\<close>

text \<open>
  \<^verbatim>\<open>rejitter-sqs-lambda.ts\<close>. Its environment is written by \<^verbatim>\<open>createRejitterLogic\<close>:
  \<^verbatim>\<open>INITIAL_DELAY\<close> and \<^verbatim>\<open>JITTER_DELAY\<close> are the two numbers printed with \<^verbatim>\<open>toString\<close>, and
  the handler reads them back with \<^verbatim>\<open>Number\<close>. \<^verbatim>\<open>Math.random()\<close> is a number \<open>r\<close> with
  \<open>0 \<le> r < 1\<close>; the handler draws one for each record, in the order of the records.
\<close>

record process_env =
  QUEUE_URL :: string
  INITIAL_DELAY :: int
  JITTER_DELAY :: int

definition createRejitterLogic_environment ::
  "string \<Rightarrow> CircuitBreakerLambdaProps \<Rightarrow> process_env" where
  "createRejitterLogic_environment queueUrl props =
     \<lparr>QUEUE_URL = queueUrl, INITIAL_DELAY = backoffDelay props,
      JITTER_DELAY = rejitterRange props\<rparr>"

record SQSRecord =
  body :: string

record SendMessageRequest =
  QueueUrl :: string
  MessageBody :: string
  DelaySeconds :: int

definition delay :: "process_env \<Rightarrow> real \<Rightarrow> int" where
  "delay penv r = INITIAL_DELAY penv + \<lfloor>r * real_of_int (JITTER_DELAY penv - 1)\<rfloor>"

definition handler :: "process_env \<Rightarrow> (nat \<Rightarrow> real) \<Rightarrow> SQSRecord list \<Rightarrow> SendMessageRequest list" where
  "handler penv random records =
     map (\<lambda>(i, sqsRecord).
            \<lparr>QueueUrl = QUEUE_URL penv, MessageBody = body sqsRecord,
             DelaySeconds = delay penv (random i)\<rparr>)
         (enumerate 0 records)"

section \<open>Concrete deployments and environments\<close>

text \<open>
  The props of the example stack (\<^verbatim>\<open>initialBackoffDelay: 10, rejitter: true\<close>), the same
  stack with another initial delay, and the stack without rejitter.
\<close>

definition example_props :: CircuitBreakerLambdaProps where
  "example_props =
     \<lparr>rejitter = True, rejitterInitialBackoffDelay = None, rejitterDelay = None,
      initialBackoffDelay = Some 10\<rparr>"

definition slow_props :: CircuitBreakerLambdaProps where
  "slow_props = example_props\<lparr>initialBackoffDelay := Some 30\<rparr>"

definition plain_props :: CircuitBreakerLambdaProps where
  "plain_props = example_props\<lparr>rejitter := False\<rparr>"

definition probe :: message where
  "probe = \<lparr>Body = ''order-1'', ReceiptHandle = ''handle-1''\<rparr>"

text \<open>Every call succeeds and the triggering function has recovered.\<close>

definition healthy :: environment where
  "healthy =
     \<lparr>toggle_ok = (\<lambda>s. True), receive_ok = (\<lambda>k. True), worker_ok = (\<lambda>k. True),
      service_error = (\<lambda>k. False), delete_ok = True, queue = [probe, \<lparr>Body = ''order-2'', ReceiptHandle = ''handle-2''\<rparr>]\<rparr>"

text \<open>The triggering function fails every invocation, with an error of its own.\<close>

definition failing_worker :: environment where
  "failing_worker = healthy\<lparr>worker_ok := (\<lambda>k. False)\<rparr>"

text \<open>Every invocation fails with an error of the Lambda service.\<close>

definition lambda_outage :: environment where
  "lambda_outage = healthy\<lparr>worker_ok := (\<lambda>k. False), service_error := (\<lambda>k. True)\<rparr>"

text \<open>Every call of \<^verbatim>\<open>updateEventSourceMapping\<close> fails.\<close>

definition gate_failure :: environment where
  "gate_failure = healthy\<lparr>toggle_ok := (\<lambda>s. False)\<rparr>"

text \<open>Only the call that enables the mapping of the triggering function fails.\<close>

definition enable_failure :: environment where
  "enable_failure = healthy\<lparr>toggle_ok := (\<lambda>s. s \<noteq> EnabledMapping)\<rparr>"

text \<open>Only the call that disables the mapping of the rejitter function fails.\<close>

definition rejitter_stop_failure :: environment where
  "rejitter_stop_failure = healthy\<lparr>toggle_ok := (\<lambda>s. s \<noteq> DisableRejitter)\<rparr>"

text \<open>The deletion of the probe message fails.\<close>

definition delete_failure :: environment where
  "delete_failure = healthy\<lparr>delete_ok := False\<rparr>"

text \<open>\<^verbatim>\<open>receiveMessage\<close> fails twice, then answers.\<close>

definition flaky_transport :: environment where
  "flaky_transport = failing_worker\<lparr>receive_ok := (\<lambda>k. 2 \<le> k)\<rparr>"

section \<open>Invariants of an execution\<close>

text \<open>
  Each predicate below holds of the start of an execution and is kept by every step, so
  it holds of the terminal state that \<open>run\<close> returns.
\<close>

text \<open>
  The arithmetic of the retry loop: with \<open>n\<close> backoff waits behind it, an execution at
  the probe has \<open>Attempt = n + 1\<close> and \<open>RetryTime = 10 * 2 ^ n\<close>. Every invocation is
  either the last of its probe or followed by a wait of the retrier, which allows six to
  a probe: so \<open>k\<close> invocations and \<open>w\<close> such waits mean \<open>k - w\<close> probes.
\<close>

definition backoff_inv :: "execution \<Rightarrow> bool" where
  "backoff_inv x =
     (let ws = waits WaitAndRetry (trace x); n = length ws;
          k = length (invocations (trace x));
          w = length (invoke_retry_waits (trace x))
      in (\<forall>i<n. ws ! i = 10 * 2 ^ (i + 1)) \<and> n \<le> 8 \<and> k \<le> w + 9 \<and> w \<le> 54 \<and>
         (case status x of
            Running s \<Rightarrow>
              (case s of
                 DisableMapping \<Rightarrow> n = 0 \<and> k = 0 \<and> w = 0
               | WaitState \<Rightarrow> n = 0 \<and> k = 0 \<and> w = 0
               | GetTesterMessage \<Rightarrow> n = 0 \<and> k = 0 \<and> w = 0
               | TriggerLambda \<Rightarrow> k = w + n \<and> w \<le> 6 * n + retried x \<and> retried x \<le> 6 \<and>
                   (\<forall>inc. input x = Some inc \<longrightarrow>
                      Attempt inc = int n + 1 \<and> RetryTime inc = 10 * 2 ^ n)
               | IncrementFailureAndTime \<Rightarrow> k = w + n + 1 \<and> w \<le> 6 * (n + 1) \<and>
                   retried x = 0 \<and>
                   (\<forall>inc. input x = Some inc \<longrightarrow>
                      Attempt inc = int n + 1 \<and> RetryTime inc = 10 * 2 ^ n)
               | ExceededRetryChoice \<Rightarrow> k = w + n + 1 \<and> w \<le> 6 * (n + 1) \<and>
                   retried x = 0 \<and>
                   (\<forall>inc. input x = Some inc \<longrightarrow>
                      Attempt inc = int n + 2 \<and> RetryTime inc = 10 * 2 ^ (n + 1))
               | WaitAndRetry \<Rightarrow> k = w + n + 1 \<and> w \<le> 6 * (n + 1) \<and> n \<le> 7 \<and>
                   retried x = 0 \<and>
                   (\<forall>inc. input x = Some inc \<longrightarrow>
                      Attempt inc = int n + 2 \<and> RetryTime inc = 10 * 2 ^ (n + 1))
               | _ \<Rightarrow> True)
          | _ \<Rightarrow> True))"

text \<open>
  An execution whose probe message has been fetched and whose triggering function never
  recovers: it can only end \<open>Failed\<close>, after eight waits and nine probes.
\<close>

definition fetched :: "execution \<Rightarrow> bool" where
  "fetched x = (\<exists>inc. input x = Some inc \<and> Messages inc \<noteq> [])"

definition exhausting_inv :: "nat \<Rightarrow> execution \<Rightarrow> bool" where
  "exhausting_inv j x =
     (let n = length (waits WaitAndRetry (trace x));
          k = length (invocations (trace x));
          w = length (invoke_retry_waits (trace x))
      in case status x of
           Running s \<Rightarrow>
             (case s of
                DisableMapping \<Rightarrow> retried x \<le> j
              | WaitState \<Rightarrow> retried x \<le> j
              | GetTesterMessage \<Rightarrow> retried x \<le> j
              | TriggerLambda \<Rightarrow> fetched x
              | IncrementFailureAndTime \<Rightarrow> fetched x
              | ExceededRetryChoice \<Rightarrow> fetched x
              | WaitAndRetry \<Rightarrow> fetched x
              | ExceededRetryAttempts \<Rightarrow> n = 8 \<and> k = w + 9
              | _ \<Rightarrow> False)
         | Succeeded \<Rightarrow> False
         | Failed \<Rightarrow> n = 8 \<and> k = w + 9)"

text \<open>Without an error of the Lambda service, the retrier of the invocation never waits.\<close>

definition unretried_inv :: "execution \<Rightarrow> bool" where
  "unretried_inv x = (invoke_retry_waits (trace x) = [])"

text \<open>
  The consumer gate: the mapping \<open>mp\<close> is disabled after every event of a trace; the
  enabling call is the last event of an execution that succeeds, and of no other.
\<close>

definition always_off :: "mapping \<Rightarrow> bool \<Rightarrow> event list \<Rightarrow> bool" where
  "always_off mp b tr = (\<forall>p. prefix p tr \<and> p \<noteq> [] \<longrightarrow> \<not> mapping_enabled mp b p)"

definition gate_inv :: "bool \<Rightarrow> bool \<Rightarrow> CircuitBreakerLambdaProps \<Rightarrow> execution \<Rightarrow> bool" where
  "gate_inv d b props x =
     (let tr = trace x;
          enabled = UpdateEventSourceMapping SqsEventSource True True;
          stopped = UpdateEventSourceMapping RejitterSqsEventSource False True
      in case status x of
           Running s \<Rightarrow>
             (if s = DisableMapping then tr = []
              else (d \<longrightarrow> tr \<noteq> [] \<and> always_off SqsEventSource b tr) \<and> enabled \<notin> set tr
                \<and> (rejitter props \<and> s = EnabledMapping \<longrightarrow> stopped \<in> set tr))
         | Failed \<Rightarrow> (d \<longrightarrow> tr \<noteq> [] \<and> always_off SqsEventSource b tr) \<and> enabled \<notin> set tr
         | Succeeded \<Rightarrow>
             tr \<noteq> [] \<and> last tr = enabled \<and> enabled \<notin> set (butlast tr)
             \<and> (d \<longrightarrow> butlast tr \<noteq> [] \<and> always_off SqsEventSource b (butlast tr))
             \<and> (rejitter props \<longrightarrow> stopped \<in> set (butlast tr)))"

text \<open>
  The calls without a retrier: each is made at most once, and an execution succeeds only
  when the deletion and the enabling call have succeeded.
\<close>

definition after_delete :: "state_id \<Rightarrow> bool" where
  "after_delete s =
     (s = EnableRejitter \<or> s = WaitAndDisableJitter \<or> s = DisableRejitter \<or> s = EnabledMapping)"

definition calls_inv :: "environment \<Rightarrow> execution \<Rightarrow> bool" where
  "calls_inv env x =
     (let off = length (toggles SqsEventSource False (trace x));
          on = length (toggles SqsEventSource True (trace x));
          del = length (deletes (trace x))
      in case status x of
           Running s \<Rightarrow>
             on = 0 \<and> off = (if s = DisableMapping then 0 else 1)
             \<and> (if after_delete s then delete_ok env \<and> del = 1 else del = 0)
         | Succeeded \<Rightarrow>
             toggle_ok env EnabledMapping \<and> delete_ok env \<and> off = 1 \<and> on = 1 \<and> del = 1
         | Failed \<Rightarrow> off = 1 \<and> on \<le> 1 \<and> del \<le> 1)"

text \<open>
  The retrier of the fetch: its waits double from 10 seconds, there are at most five, and
  the state input holds one message once the fetch has answered.
\<close>

definition fetch_inv :: "execution \<Rightarrow> bool" where
  "fetch_inv x =
     (let rw = retry_waits (trace x); rc = receives (trace x)
      in (\<forall>i<length rw. rw ! i = 10 * 2 ^ i) \<and> length rw \<le> 5
         \<and> length rc \<le> length rw + 1
         \<and> set rc \<subseteq> {ReceiveMessage 1 True, ReceiveMessage 1 False}
         \<and> (\<forall>inc. input x = Some inc \<longrightarrow> length (Messages inc) = 1)
         \<and> (case status x of
               Running s \<Rightarrow>
                 (if s = DisableMapping \<or> s = WaitState
                  then retried x = 0 \<and> rw = [] \<and> rc = [] \<and> input x = None
                  else if s = GetTesterMessage
                  then retried x = length rw \<and> length rc = length rw \<and> input x = None
                  else True)
             | _ \<Rightarrow> True))"

text \<open>
  The probe message: the retry loop keeps the message that was fetched, and no
  \<^verbatim>\<open>receiveMessage\<close> follows the first invocation.
\<close>

definition in_retry_loop :: "state_id \<Rightarrow> bool" where
  "in_retry_loop s =
     (s = TriggerLambda \<or> s = IncrementFailureAndTime \<or> s = ExceededRetryChoice
      \<or> s = WaitAndRetry)"

definition before_probe :: "state_id \<Rightarrow> bool" where
  "before_probe s = (s = DisableMapping \<or> s = WaitState \<or> s = GetTesterMessage)"

definition probe_inv :: "environment \<Rightarrow> execution \<Rightarrow> bool" where
  "probe_inv env x =
     (receives (since_first_probe (trace x)) = []
      \<and> set (invocations (trace x))
          \<subseteq> {LambdaInvoke (Body (hd (queue env))) True,
              LambdaInvoke (Body (hd (queue env))) False}
      \<and> (case status x of
            Running s \<Rightarrow>
              (before_probe s \<longrightarrow> invocations (trace x) = [])
              \<and> (in_retry_loop s \<longrightarrow>
                   (\<forall>inc. input x = Some inc \<longrightarrow> Messages inc = [hd (queue env)]))
          | _ \<Rightarrow> True))"

text \<open>
  The rejitter drain: its mapping is enabled only after the call that enables it has
  succeeded and before the call that disables it has.
\<close>

definition windowed :: "event list \<Rightarrow> bool" where
  "windowed tr =
     (\<forall>p. prefix p tr \<and> mapping_enabled RejitterSqsEventSource rejitterSqsEventSource_created p \<longrightarrow>
          UpdateEventSourceMapping RejitterSqsEventSource True True \<in> set p
          \<and> UpdateEventSourceMapping RejitterSqsEventSource False True \<notin> set p)"

definition draining :: "state_id \<Rightarrow> bool" where
  "draining s = (s = WaitAndDisableJitter \<or> s = DisableRejitter)"

definition drain_inv :: "execution \<Rightarrow> bool" where
  "drain_inv x =
     (let tr = trace x;
          on = mapping_enabled RejitterSqsEventSource rejitterSqsEventSource_created tr;
          started = UpdateEventSourceMapping RejitterSqsEventSource True True;
          stopped = UpdateEventSourceMapping RejitterSqsEventSource False True
      in windowed tr
         \<and> (case status x of
               Running s \<Rightarrow>
                 (if draining s then stopped \<notin> set tr
                  else if s = EnabledMapping then \<not> on
                  else \<not> on \<and> stopped \<notin> set tr)
             | Succeeded \<Rightarrow> \<not> on
             | Failed \<Rightarrow> True))"

section \<open>Properties of every execution\<close>

declare exec.simps [simp del]

lemma exec_invariant:
  assumes "I x"
    and "\<And>s y. I y \<Longrightarrow> status y = Running s \<Longrightarrow> I (step props env s y)"
  shows "I (exec props env x)"
  using assms
proof (induction props env x rule: exec.induct)
  case (1 props env x)
  show ?case
  proof (cases "status x")
    case (Running s)
    have "I (step props env s x)"
      using "1.prems" Running by simp
    then have "I (exec props env (step props env s x))"
      using "1.IH" [OF Running] "1.prems"(2) by simp
    then show ?thesis
      using Running by (simp add: exec.simps [of _ _ x])
  next
    case Succeeded
    then show ?thesis using "1.prems"(1) by (simp add: exec.simps [of _ _ x])
  next
    case Failed
    then show ?thesis using "1.prems"(1) by (simp add: exec.simps [of _ _ x])
  qed
qed

lemma exec_terminal: "status (exec props env x) \<noteq> Running s"
proof (induction props env x rule: exec.induct)
  case (1 props env x)
  then show ?case
    by (cases "status x") (simp_all add: exec.simps [of _ _ x])
qed

lemma waits_simps [simp]:
  "waits s [] = []"
  "waits s (e # es) = waited_at s e @ waits s es"
  "waits s (tr @ es) = waits s tr @ waits s es"
  by (simp_all add: waits_def)

lemma invoke_retry_waits_simps [simp]:
  "invoke_retry_waits [] = []"
  "invoke_retry_waits (e # es) = invoke_retry_waited e @ invoke_retry_waits es"
  "invoke_retry_waits (tr @ es) = invoke_retry_waits tr @ invoke_retry_waits es"
  by (simp_all add: invoke_retry_waits_def)

lemma invocations_simps [simp]:
  "invocations [] = []"
  "invocations (e # es) = (if is_invoke e then e # invocations es else invocations es)"
  "invocations (tr @ es) = invocations tr @ invocations es"
  by (simp_all add: invocations_def)

lemmas task_defs = toggleEventSourceMapping_def performSqsActionTask_def triggerLambda_def
  deleteSqsTaskAction_def incrementFailureAndTime_def MaxNumberOfMessages_def
  retry_maxAttempts_def retry_interval_def retry_backoffRate_def
  invoke_maxAttempts_def invoke_interval_def invoke_backoffRate_def

lemma backoff_inv_step:
  "backoff_inv x \<Longrightarrow> status x = Running s \<Longrightarrow> backoff_inv (step props env s x)"
  by (cases s)
     (auto simp: backoff_inv_def Let_def task_defs nth_append
        split: option.splits list.splits)

lemma backoff_inv_run: "backoff_inv (run props env)"
  unfolding run_def
proof (rule exec_invariant)
  show "backoff_inv start"
    by (simp add: backoff_inv_def start_def)
qed (rule backoff_inv_step)

lemma exhausting_inv_step:
  assumes "toggle_ok env DisableMapping" and "receive_ok env j" and "j \<le> 5"
    and "queue env \<noteq> []" and "\<forall>k. \<not> worker_ok env k"
    and "backoff_inv x \<and> exhausting_inv j x" and "status x = Running s"
  shows "exhausting_inv j (step props env s x)"
proof -
  have q: "take (Suc 0) (queue env) \<noteq> []"
    using assms(4) by (cases "queue env") simp_all
  have r: "Suc (retried x) \<le> j \<and> retried x < 5"
    if "retried x \<le> j" and "\<not> receive_ok env (retried x)"
  proof -
    have "retried x \<noteq> j"
      using that(2) assms(2) by auto
    then show ?thesis
      using that(1) assms(3) by simp
  qed
  show ?thesis
    using assms q r
    by (cases s)
       (auto simp: backoff_inv_def exhausting_inv_def fetched_def Let_def task_defs
          split: option.splits list.splits)
qed

lemma exhausting_run:
  assumes "toggle_ok env DisableMapping" and "receive_ok env j" and "j \<le> 5"
    and "queue env \<noteq> []" and "\<forall>k. \<not> worker_ok env k"
  shows "exhausting_inv j (run props env)"
proof -
  have "backoff_inv (run props env) \<and> exhausting_inv j (run props env)"
    unfolding run_def
  proof (rule exec_invariant)
    show "backoff_inv start \<and> exhausting_inv j start"
      by (simp add: backoff_inv_def exhausting_inv_def start_def)
  next
    fix s y
    assume "backoff_inv y \<and> exhausting_inv j y" and "status y = Running s"
    then show "backoff_inv (step props env s y) \<and> exhausting_inv j (step props env s y)"
      using backoff_inv_step exhausting_inv_step [OF assms] by blast
  qed
  then show ?thesis by simp
qed

lemma exhausted_counts:
  assumes "toggle_ok env DisableMapping" and "receive_ok env j" and "j \<le> 5"
    and "queue env \<noteq> []" and "\<forall>k. \<not> worker_ok env k"
  shows "status (run props env) = Failed"
    and "length (waits WaitAndRetry (trace (run props env))) = 8"
    and "length (invocations (trace (run props env)))
           = length (invoke_retry_waits (trace (run props env))) + 9"
proof -
  have t: "\<And>s. status (run props env) \<noteq> Running s"
    by (simp add: run_def exec_terminal)
  have e: "exhausting_inv j (run props env)"
    by (rule exhausting_run [OF assms])
  show "status (run props env) = Failed"
  proof (cases "status (run props env)")
    case (Running s)
    then show ?thesis using t by simp
  next
    case Succeeded
    then show ?thesis using e by (simp add: exhausting_inv_def)
  qed simp
  then show "length (waits WaitAndRetry (trace (run props env))) = 8"
    and "length (invocations (trace (run props env)))
           = length (invoke_retry_waits (trace (run props env))) + 9"
    using e by (simp_all add: exhausting_inv_def Let_def)
qed

lemma unretried_inv_step:
  assumes "\<forall>k. \<not> service_error env k" and "unretried_inv x" and "status x = Running s"
  shows "unretried_inv (step props env s x)"
  using assms
  by (cases s) (auto simp: unretried_inv_def task_defs split: option.splits list.splits)

lemma unretried_run:
  assumes "\<forall>k. \<not> service_error env k"
  shows "invoke_retry_waits (trace (run props env)) = []"
proof -
  have "unretried_inv (run props env)"
    unfolding run_def
  proof (rule exec_invariant)
    show "unretried_inv start"
      by (simp add: unretried_inv_def start_def)
  qed (rule unretried_inv_step [OF assms])
  then show ?thesis
    by (simp add: unretried_inv_def)
qed

lemma doubling_upto_8:
  "map (\<lambda>i. 10 * 2 ^ (i + 1)) [0..<8] = [20, 40, 80, 160, 320, 640, 1280, 2560 :: int]"
  by code_simp

lemma doubling_list:
  fixes ws :: "int list"
  assumes "length ws = 8" and "\<forall>i<length ws. ws ! i = 10 * 2 ^ (i + 1)"
  shows "ws = [20, 40, 80, 160, 320, 640, 1280, 2560]"
proof -
  have "ws = map (\<lambda>i. 10 * 2 ^ (i + 1)) [0..<length ws]"
    using assms(2) by (intro nth_equalityI) simp_all
  then show ?thesis
    using assms(1) doubling_upto_8 by simp
qed
lemma mapping_enabled_simps [simp]:
  "mapping_enabled mp b [] = b"
  "mapping_enabled mp b (e # es) = mapping_enabled mp (toggled mp b e) es"
  "mapping_enabled mp b (tr @ es) = mapping_enabled mp (mapping_enabled mp b tr) es"
  by (simp_all add: mapping_enabled_def)

lemma always_off_Nil [simp]: "always_off mp b []"
  by (simp add: always_off_def)

lemma always_off_snoc [simp]:
  "always_off mp b (tr @ [e]) = (always_off mp b tr \<and> \<not> toggled mp (mapping_enabled mp b tr) e)"
  by (auto simp: always_off_def)

lemma always_off_snoc2 [simp]:
  "always_off mp b (tr @ [e, e']) =
     (always_off mp b tr \<and> \<not> toggled mp (mapping_enabled mp b tr) e
      \<and> \<not> toggled mp (toggled mp (mapping_enabled mp b tr) e) e')"
proof -
  have "always_off mp b (tr @ [e, e']) = always_off mp b ((tr @ [e]) @ [e'])"
    by simp
  also have "\<dots> = (always_off mp b (tr @ [e]) \<and> \<not> toggled mp (mapping_enabled mp b (tr @ [e])) e')"
    by (rule always_off_snoc)
  finally show ?thesis by simp
qed

lemma always_off_single [simp]: "always_off mp b [e] = (\<not> toggled mp b e)"
  using always_off_snoc [of mp b "[]" e] by simp

lemma always_off_last: "always_off mp b tr \<Longrightarrow> tr \<noteq> [] \<Longrightarrow> \<not> mapping_enabled mp b tr"
  by (simp add: always_off_def)

lemma gate_inv_step:
  assumes "gate_inv (toggle_ok env DisableMapping) b props x" and "status x = Running s"
  shows "gate_inv (toggle_ok env DisableMapping) b props (step props env s x)"
proof (cases s)
  case DisableMapping
  then show ?thesis using assms
    by (auto simp: gate_inv_def Let_def task_defs)
next
  case GetTesterMessage
  then show ?thesis using assms
    by (auto simp: gate_inv_def Let_def task_defs
        dest: always_off_last split: list.splits)
next
  case EnabledMapping
  then show ?thesis using assms
    by (auto simp: gate_inv_def Let_def task_defs dest: always_off_last)
qed (use assms in \<open>auto simp: gate_inv_def Let_def task_defs
        dest: always_off_last split: option.splits list.splits\<close>)

lemma gate_inv_run: "gate_inv (toggle_ok env DisableMapping) b props (run props env)"
  unfolding run_def
proof (rule exec_invariant)
  show "gate_inv (toggle_ok env DisableMapping) b props start"
    by (simp add: gate_inv_def start_def)
qed (rule gate_inv_step)

lemma run_terminal: "status (run props env) = Succeeded \<or> status (run props env) = Failed"
  using exec_terminal [of props env start]
  by (cases "status (run props env)") (simp_all add: run_def)

lemma toggles_simps [simp]:
  "toggles mp en [] = []"
  "toggles mp en (e # es) = (if is_toggle mp en e then e # toggles mp en es else toggles mp en es)"
  "toggles mp en (tr @ es) = toggles mp en tr @ toggles mp en es"
  by (simp_all add: toggles_def)

lemma deletes_simps [simp]:
  "deletes [] = []"
  "deletes (e # es) = (if is_delete e then e # deletes es else deletes es)"
  "deletes (tr @ es) = deletes tr @ deletes es"
  by (simp_all add: deletes_def)

lemma calls_inv_step:
  "calls_inv env x \<Longrightarrow> status x = Running s \<Longrightarrow> calls_inv env (step props env s x)"
  by (cases s)
     (auto simp: calls_inv_def Let_def task_defs after_delete_def
        split: option.splits list.splits)

lemma calls_inv_run: "calls_inv env (run props env)"
  unfolding run_def
proof (rule exec_invariant)
  show "calls_inv env start"
    by (simp add: calls_inv_def start_def after_delete_def)
qed (rule calls_inv_step)

lemma exec_Running: "status x = Running s \<Longrightarrow> exec props env x = exec props env (step props env s x)"
  by (simp add: exec.simps [of _ _ x])

lemma exec_Failed: "status x = Failed \<Longrightarrow> exec props env x = x"
  by (simp add: exec.simps [of _ _ x])

lemma exec_Succeeded: "status x = Succeeded \<Longrightarrow> exec props env x = x"
  by (simp add: exec.simps [of _ _ x])

lemma retry_waits_simps [simp]:
  "retry_waits [] = []"
  "retry_waits (e # es) = retry_waited e @ retry_waits es"
  "retry_waits (tr @ es) = retry_waits tr @ retry_waits es"
  by (simp_all add: retry_waits_def)

lemma receives_simps [simp]:
  "receives [] = []"
  "receives (e # es) = (if is_receive e then e # receives es else receives es)"
  "receives (tr @ es) = receives tr @ receives es"
  by (simp_all add: receives_def)

lemma take_one_Cons: "take (Suc 0) xs = y # ys \<Longrightarrow> ys = []"
  by (cases xs) simp_all

lemma fetch_inv_step:
  "fetch_inv x \<Longrightarrow> status x = Running s \<Longrightarrow> fetch_inv (step props env s x)"
  by (cases s)
     (auto simp: fetch_inv_def Let_def task_defs nth_append
        dest: take_one_Cons split: option.splits list.splits)

lemma fetch_inv_run: "fetch_inv (run props env)"
  unfolding run_def
proof (rule exec_invariant)
  show "fetch_inv start"
    by (simp add: fetch_inv_def start_def)
qed (rule fetch_inv_step)

lemma upt_shift: "map f [0..<Suc k] = f 0 # map (\<lambda>j. f (Suc j)) [0..<k]"
  by (simp add: upt_conv_Cons map_Suc_upt [symmetric] del: upt_Suc)

lemma fetch_after_retries:
  assumes "status x = Running GetTesterMessage" and "retried x + k \<le> 5"
    and "\<forall>j<k. \<not> receive_ok env (retried x + j)" and "receive_ok env (retried x + k)"
    and "queue env \<noteq> []"
  shows "exec props env x =
         exec props env
           (x\<lparr>status := Running TriggerLambda,
              input := Some \<lparr>Messages = [hd (queue env)], Attempt = 1, RetryTime = 10\<rparr>,
              retried := 0,
              trace := trace x
                @ concat (map (\<lambda>j. [ReceiveMessage 1 False, RetryWaited (10 * 2 ^ (retried x + j))])
                            [0..<k])
                @ [ReceiveMessage 1 True]\<rparr>)"
  using assms
proof (induction k arbitrary: x)
  case 0
  then show ?case
    by (cases "queue env") (simp_all add: exec_Running [of x] task_defs)
next
  case (Suc k)
  let ?y = "x\<lparr>retried := retried x + 1,
               trace := trace x @ [ReceiveMessage 1 False, RetryWaited (10 * 2 ^ retried x)]\<rparr>"
  have no: "\<not> receive_ok env (retried x)"
    using Suc.prems(3) by (metis add.right_neutral zero_less_Suc)
  have s: "step props env GetTesterMessage x = ?y"
    using no Suc.prems(2) by (simp add: task_defs)
  have "exec props env x = exec props env ?y"
    using Suc.prems(1) s by (simp add: exec_Running [of x])
  also have "\<dots> = exec props env
           (?y\<lparr>status := Running TriggerLambda,
              input := Some \<lparr>Messages = [hd (queue env)], Attempt = 1, RetryTime = 10\<rparr>,
              retried := 0,
              trace := trace ?y
                @ concat (map (\<lambda>j. [ReceiveMessage 1 False, RetryWaited (10 * 2 ^ (retried ?y + j))])
                            [0..<k])
                @ [ReceiveMessage 1 True]\<rparr>)"
  proof (rule Suc.IH)
    show "status ?y = Running GetTesterMessage" using Suc.prems(1) by simp
    show "retried ?y + k \<le> 5" using Suc.prems(2) by simp
    show "\<forall>j<k. \<not> receive_ok env (retried ?y + j)"
    proof (intro allI impI)
      fix j assume "j < k"
      then have "Suc j < Suc k"
        by simp
      then have "\<not> receive_ok env (retried x + Suc j)"
        using Suc.prems(3) by blast
      then show "\<not> receive_ok env (retried ?y + j)"
        by simp
    qed
    show "receive_ok env (retried ?y + k)" using Suc.prems(4) by simp
    show "queue env \<noteq> []" by (rule Suc.prems(5))
  qed
  finally show ?case
    by (simp add: upt_shift del: upt_Suc)
qed

lemma fetch_exhausted:
  assumes "status x = Running GetTesterMessage" and "retried x + k = 5"
    and "\<forall>j\<le>k. \<not> receive_ok env (retried x + j)"
  shows "exec props env x =
         x\<lparr>status := Failed, retried := 5,
           trace := trace x
             @ concat (map (\<lambda>j. [ReceiveMessage 1 False, RetryWaited (10 * 2 ^ (retried x + j))])
                         [0..<k])
             @ [ReceiveMessage 1 False]\<rparr>"
  using assms
proof (induction k arbitrary: x)
  case 0
  then show ?case
    by (simp add: exec_Running [of x] exec_Failed task_defs)
next
  case (Suc k)
  let ?y = "x\<lparr>retried := retried x + 1,
               trace := trace x @ [ReceiveMessage 1 False, RetryWaited (10 * 2 ^ retried x)]\<rparr>"
  have no: "\<not> receive_ok env (retried x)"
    using Suc.prems(3) by (metis add.right_neutral le0)
  have s: "step props env GetTesterMessage x = ?y"
    using no Suc.prems(2) by (simp add: task_defs)
  have "exec props env x = exec props env ?y"
    using Suc.prems(1) s by (simp add: exec_Running [of x])
  also have "\<dots> =
         ?y\<lparr>status := Failed, retried := 5,
           trace := trace ?y
             @ concat (map (\<lambda>j. [ReceiveMessage 1 False, RetryWaited (10 * 2 ^ (retried ?y + j))])
                         [0..<k])
             @ [ReceiveMessage 1 False]\<rparr>"
  proof (rule Suc.IH)
    show "status ?y = Running GetTesterMessage" using Suc.prems(1) by simp
    show "retried ?y + k = 5" using Suc.prems(2) by simp
    show "\<forall>j\<le>k. \<not> receive_ok env (retried ?y + j)"
    proof (intro allI impI)
      fix j assume "j \<le> k"
      then have "Suc j \<le> Suc k"
        by simp
      then have "\<not> receive_ok env (retried x + Suc j)"
        using Suc.prems(3) by blast
      then show "\<not> receive_ok env (retried ?y + j)"
        by simp
    qed
  qed
  finally show ?case
    by (simp add: upt_shift del: upt_Suc)
qed

lemma since_first_probe_append:
  "since_first_probe (tr @ es) =
     (if invocations tr = [] then since_first_probe es else since_first_probe tr @ es)"
  by (auto simp: since_first_probe_def invocations_def filter_empty_conv dropWhile_append)

lemma since_first_probe_simps [simp]:
  "since_first_probe [] = []"
  "since_first_probe (e # es) = (if is_invoke e then e # es else since_first_probe es)"
  by (simp_all add: since_first_probe_def)

lemma take_one_hd: "take (Suc 0) xs = y # ys \<Longrightarrow> y = hd xs \<and> ys = []"
  by (cases xs) simp_all

lemma probe_inv_step:
  "probe_inv env x \<Longrightarrow> status x = Running s \<Longrightarrow> probe_inv env (step props env s x)"
  by (cases s)
     (auto simp: probe_inv_def task_defs since_first_probe_append before_probe_def
        in_retry_loop_def
        dest: take_one_hd split: option.splits list.splits)

lemma probe_inv_run: "probe_inv env (run props env)"
  unfolding run_def
proof (rule exec_invariant)
  show "probe_inv env start"
    by (simp add: probe_inv_def start_def before_probe_def in_retry_loop_def)
qed (rule probe_inv_step)

lemma retry_round:
  assumes "status x = Running TriggerLambda" and "input x = Some inc"
    and "Messages inc = m # ms" and "\<not> worker_ok env (length (invocations (trace x)))"
    and "service_error env (length (invocations (trace x))) \<longrightarrow> 6 \<le> retried x"
    and "Attempt inc + 1 < 10"
  shows "exec props env x =
         exec props env
           (x\<lparr>retried := 0,
              input := Some (inc\<lparr>Attempt := Attempt inc + 1, RetryTime := 2 * RetryTime inc\<rparr>),
              trace := trace x @ [LambdaInvoke (Body m) False,
                                  Waited WaitAndRetry (2 * RetryTime inc)]\<rparr>)"
proof -
  let ?a = "x\<lparr>status := Running IncrementFailureAndTime, retried := 0,
               trace := trace x @ [LambdaInvoke (Body m) False]\<rparr>"
  let ?b = "?a\<lparr>status := Running ExceededRetryChoice,
                input := Some (incrementFailureAndTime inc)\<rparr>"
  let ?c = "?b\<lparr>status := Running WaitAndRetry\<rparr>"
  let ?d = "?c\<lparr>status := Running TriggerLambda,
                trace := trace ?c @ [Waited WaitAndRetry (RetryTime (incrementFailureAndTime inc))]\<rparr>"
  have e1: "exec props env x = exec props env (step props env TriggerLambda x)"
    by (rule exec_Running) (rule assms(1))
  have s1: "step props env TriggerLambda x = ?a"
    using assms by (auto simp: triggerLambda_def invoke_maxAttempts_def)
  have e2: "exec props env ?a = exec props env (step props env IncrementFailureAndTime ?a)"
    by (rule exec_Running) simp
  have s2: "step props env IncrementFailureAndTime ?a = ?b"
    using assms(2) by simp
  have e3: "exec props env ?b = exec props env (step props env ExceededRetryChoice ?b)"
    by (rule exec_Running) simp
  have s3: "step props env ExceededRetryChoice ?b = ?c"
    using assms(6) by (simp add: incrementFailureAndTime_def)
  have e4: "exec props env ?c = exec props env (step props env WaitAndRetry ?c)"
    by (rule exec_Running) simp
  have s4: "step props env WaitAndRetry ?c = ?d"
    by simp
  have d: "?d = x\<lparr>retried := 0,
              input := Some (inc\<lparr>Attempt := Attempt inc + 1, RetryTime := 2 * RetryTime inc\<rparr>),
              trace := trace x @ [LambdaInvoke (Body m) False,
                                  Waited WaitAndRetry (2 * RetryTime inc)]\<rparr>"
    using assms(1,3) by (simp add: incrementFailureAndTime_def)
  have "exec props env x = exec props env ?d"
    by (simp only: e1 s1 e2 s2 e3 s3 e4 s4)
  then show ?thesis
    by (simp only: d)
qed

lemma invoke_retries_exhausted:
  assumes "status x = Running TriggerLambda" and "input x = Some inc"
    and "Messages inc = m # ms" and "retried x + k = 6"
    and "\<forall>j\<le>k. \<not> worker_ok env (length (invocations (trace x)) + j)
               \<and> service_error env (length (invocations (trace x)) + j)"
  shows "exec props env x =
         exec props env
           (x\<lparr>status := Running IncrementFailureAndTime, retried := 0,
              trace := trace x
                @ concat (map (\<lambda>j. [LambdaInvoke (Body m) False,
                                     InvokeRetryWaited (2 * 2 ^ (retried x + j))])
                            [0..<k])
                @ [LambdaInvoke (Body m) False]\<rparr>)"
  using assms
proof (induction k arbitrary: x)
  case 0
  have "step props env TriggerLambda x
      = x\<lparr>status := Running IncrementFailureAndTime, retried := 0,
          trace := trace x @ [LambdaInvoke (Body m) False]\<rparr>"
    using "0.prems" by (simp add: triggerLambda_def invoke_maxAttempts_def)
  then show ?case
    using "0.prems"(1) by (simp add: exec_Running [of x])
next
  case (Suc k)
  let ?y = "x\<lparr>retried := retried x + 1,
               trace := trace x @ [LambdaInvoke (Body m) False,
                                   InvokeRetryWaited (2 * 2 ^ retried x)]\<rparr>"
  have no: "\<not> worker_ok env (length (invocations (trace x)))
      \<and> service_error env (length (invocations (trace x)))"
    using Suc.prems(5) by (metis add.right_neutral le0)
  have s: "step props env TriggerLambda x = ?y"
    using no Suc.prems(2,3,4) by (simp add: task_defs)
  have "exec props env x = exec props env ?y"
    using Suc.prems(1) s by (simp add: exec_Running [of x])
  also have "\<dots> = exec props env
           (?y\<lparr>status := Running IncrementFailureAndTime, retried := 0,
              trace := trace ?y
                @ concat (map (\<lambda>j. [LambdaInvoke (Body m) False,
                                     InvokeRetryWaited (2 * 2 ^ (retried ?y + j))])
                            [0..<k])
                @ [LambdaInvoke (Body m) False]\<rparr>)"
  proof (rule Suc.IH)
    show "status ?y = Running TriggerLambda" using Suc.prems(1) by simp
    show "input ?y = Some inc" using Suc.prems(2) by simp
    show "Messages inc = m # ms" by (rule Suc.prems(3))
    show "retried ?y + k = 6" using Suc.prems(4) by simp
    show "\<forall>j\<le>k. \<not> worker_ok env (length (invocations (trace ?y)) + j)
               \<and> service_error env (length (invocations (trace ?y)) + j)"
    proof (intro allI impI)
      fix j assume "j \<le> k"
      then have "Suc j \<le> Suc k"
        by simp
      then have "\<not> worker_ok env (length (invocations (trace x)) + Suc j)
               \<and> service_error env (length (invocations (trace x)) + Suc j)"
        using Suc.prems(5) by blast
      then show "\<not> worker_ok env (length (invocations (trace ?y)) + j)
               \<and> service_error env (length (invocations (trace ?y)) + j)"
        by simp
    qed
  qed
  finally show ?case
    by (simp add: upt_shift del: upt_Suc)
qed

lemma windowed_Nil [simp]: "windowed []"
  by (simp add: windowed_def rejitterSqsEventSource_created_def)

lemma windowed_snoc:
  "windowed (tr @ [e]) =
     (windowed tr
      \<and> (mapping_enabled RejitterSqsEventSource rejitterSqsEventSource_created (tr @ [e]) \<longrightarrow>
           UpdateEventSourceMapping RejitterSqsEventSource True True \<in> set (tr @ [e])
           \<and> UpdateEventSourceMapping RejitterSqsEventSource False True \<notin> set (tr @ [e])))"
  unfolding windowed_def by (auto simp del: mapping_enabled_simps)

lemma windowed_last:
  "windowed tr \<Longrightarrow> mapping_enabled RejitterSqsEventSource rejitterSqsEventSource_created tr \<Longrightarrow>
   UpdateEventSourceMapping RejitterSqsEventSource True True \<in> set tr
   \<and> UpdateEventSourceMapping RejitterSqsEventSource False True \<notin> set tr"
  by (simp add: windowed_def)

lemma windowed_other:
  assumes "windowed tr" and "\<And>b. toggled RejitterSqsEventSource b e = b"
    and "e \<noteq> UpdateEventSourceMapping RejitterSqsEventSource False True"
  shows "windowed (tr @ [e])"
  using assms windowed_last [of tr] by (auto simp: windowed_snoc)

lemma windowed_other2:
  assumes "windowed tr" and "\<And>b. toggled RejitterSqsEventSource b e = b"
    and "e \<noteq> UpdateEventSourceMapping RejitterSqsEventSource False True"
    and "\<And>b. toggled RejitterSqsEventSource b e' = b"
    and "e' \<noteq> UpdateEventSourceMapping RejitterSqsEventSource False True"
  shows "windowed (tr @ [e, e'])"
proof -
  have "windowed ((tr @ [e]) @ [e'])"
    by (intro windowed_other assms)
  then show ?thesis by simp
qed

lemma drain_inv_step:
  assumes "drain_inv x" and "status x = Running s"
  shows "drain_inv (step props env s x)"
proof (cases s)
  case EnableRejitter
  then show ?thesis using assms
    by (auto simp: drain_inv_def Let_def task_defs draining_def windowed_snoc
          intro: windowed_other)
next
  case DisableRejitter
  then show ?thesis using assms
    by (auto simp: drain_inv_def Let_def task_defs draining_def windowed_snoc
          dest: windowed_last)
next
  case WaitAndDisableJitter
  then show ?thesis using assms
    by (auto simp: drain_inv_def Let_def task_defs draining_def intro: windowed_other)
qed (use assms in \<open>auto simp: drain_inv_def Let_def task_defs draining_def
        intro: windowed_other windowed_other2 split: option.splits list.splits\<close>)

lemma drain_inv_run: "drain_inv (run props env)"
  unfolding run_def
proof (rule exec_invariant)
  show "drain_inv start"
    by (simp add: drain_inv_def start_def draining_def rejitterSqsEventSource_created_def)
qed (rule drain_inv_step)

lemma rejitter_stage:
  assumes "status x = Running EnableRejitter" and "toggle_ok env EnableRejitter"
  shows "exec props env x =
         exec props env
           (x\<lparr>status := (if toggle_ok env DisableRejitter then Running EnabledMapping else Failed),
              input := None,
              trace := trace x
                @ [UpdateEventSourceMapping RejitterSqsEventSource True True,
                   Waited WaitAndDisableJitter (backoffDelay props),
                   UpdateEventSourceMapping RejitterSqsEventSource False
                     (toggle_ok env DisableRejitter)]\<rparr>)"
proof -
  let ?a = "x\<lparr>status := Running WaitAndDisableJitter, input := None,
               trace := trace x @ [UpdateEventSourceMapping RejitterSqsEventSource True True]\<rparr>"
  let ?b = "?a\<lparr>status := Running DisableRejitter,
                trace := trace ?a @ [Waited WaitAndDisableJitter (backoffDelay props)]\<rparr>"
  have e1: "exec props env x = exec props env (step props env EnableRejitter x)"
    by (rule exec_Running) (rule assms(1))
  have s1: "step props env EnableRejitter x = ?a"
    using assms(2) by (simp add: toggleEventSourceMapping_def)
  have e2: "exec props env ?a = exec props env (step props env WaitAndDisableJitter ?a)"
    by (rule exec_Running) simp
  have s2: "step props env WaitAndDisableJitter ?a = ?b"
    by simp
  have e3: "exec props env ?b = exec props env (step props env DisableRejitter ?b)"
    by (rule exec_Running) simp
  have s3: "step props env DisableRejitter ?b =
      x\<lparr>status := (if toggle_ok env DisableRejitter then Running EnabledMapping else Failed),
        input := None,
        trace := trace x
          @ [UpdateEventSourceMapping RejitterSqsEventSource True True,
             Waited WaitAndDisableJitter (backoffDelay props),
             UpdateEventSourceMapping RejitterSqsEventSource False
               (toggle_ok env DisableRejitter)]\<rparr>"
    by (simp add: toggleEventSourceMapping_def)
  show ?thesis
    by (simp only: e1 s1 e2 s2 e3 s3)
qed

section \<open>The retry loop\<close>

text \<open>
  Claim C1, as amended. The base of the retry interval is the constant 10 of the result
  selector, not \<open>initialBackoffDelay\<close>, and the interval is doubled before it is waited:
  in every execution the waits of the state "Exponential Backoff" are
  \<open>10 * 2 ^ i\<close> for the \<open>i\<close>-th re-invocation (\<open>i = 1, 2, ...\<close>), and there are at most eight
  of them; \<open>RetryTime\<close> doubles on every failed attempt; and when the probe message has
  been fetched and the triggering function fails every invocation, the waits are exactly
  20, 40, ..., 2560 seconds, whatever the props are.
\<close>

theorem backoff_waits_double:
  "(let ws = waits WaitAndRetry (trace (run props env))
    in length ws \<le> 8 \<and> (\<forall>i<length ws. ws ! i = 10 * 2 ^ (i + 1)))
   \<and> RetryTime (incrementFailureAndTime inc) = 2 * RetryTime inc
   \<and> (toggle_ok env DisableMapping \<and> receive_ok env j \<and> j \<le> 5 \<and> queue env \<noteq> []
        \<and> (\<forall>k. \<not> worker_ok env k)
      \<longrightarrow> waits WaitAndRetry (trace (run props env))
            = [20, 40, 80, 160, 320, 640, 1280, 2560])"
proof -
  have b: "backoff_inv (run props env)"
    by (rule backoff_inv_run)
  then have 1: "let ws = waits WaitAndRetry (trace (run props env))
    in length ws \<le> 8 \<and> (\<forall>i<length ws. ws ! i = 10 * 2 ^ (i + 1))"
    by (simp add: backoff_inv_def Let_def)
  have 2: "RetryTime (incrementFailureAndTime inc) = 2 * RetryTime inc"
    by (simp add: incrementFailureAndTime_def)
  have 3: "waits WaitAndRetry (trace (run props env)) = [20, 40, 80, 160, 320, 640, 1280, 2560]"
    if "toggle_ok env DisableMapping \<and> receive_ok env j \<and> j \<le> 5 \<and> queue env \<noteq> []
        \<and> (\<forall>k. \<not> worker_ok env k)"
  proof (rule doubling_list)
    show "length (waits WaitAndRetry (trace (run props env))) = 8"
      using that exhausted_counts(2) by blast
    show "\<forall>i<length (waits WaitAndRetry (trace (run props env))).
            waits WaitAndRetry (trace (run props env)) ! i = 10 * 2 ^ (i + 1)"
      using 1 by (simp add: Let_def)
  qed
  show ?thesis
    using 1 2 3 by blast
qed

text \<open>The example stack with a triggering function that always fails.\<close>

theorem backoff_waits_double_witness:
  "(toggle_ok failing_worker DisableMapping \<and> receive_ok failing_worker 0 \<and> (0::nat) \<le> 5
      \<and> queue failing_worker \<noteq> [] \<and> (\<forall>k. \<not> worker_ok failing_worker k))
   \<and> waits WaitAndRetry (trace (run example_props failing_worker))
       = [20, 40, 80, 160, 320, 640, 1280, 2560]
   \<and> (7::nat) < length (waits WaitAndRetry (trace (run example_props failing_worker)))
   \<and> waits WaitAndRetry (trace (run example_props failing_worker)) ! 7 = 10 * 2 ^ (7 + 1)"
proof -
  have h: "toggle_ok failing_worker DisableMapping \<and> receive_ok failing_worker 0 \<and> (0::nat) \<le> 5
      \<and> queue failing_worker \<noteq> [] \<and> (\<forall>k. \<not> worker_ok failing_worker k)"
    by (simp add: failing_worker_def healthy_def)
  with backoff_waits_double [of example_props failing_worker undefined 0]
  have "waits WaitAndRetry (trace (run example_props failing_worker))
          = [20, 40, 80, 160, 320, 640, 1280, 2560]"
    by blast
  with h show ?thesis by simp
qed

text \<open>
  Claim C1 as stated: with \<open>initialBackoffDelay = 10\<close> and a worker that always fails the
  waits would be 10, 20, 40, ..., 5120. They are not.
\<close>

theorem backoff_waits_counterexample:
  "waits WaitAndRetry (trace (run example_props failing_worker))
     \<noteq> [10, 20, 40, 80, 160, 320, 640, 1280, 2560, 5120]"
  by code_simp

text \<open>
  Claim C2, as amended. The Choice "Has Exceeded Retry Attempts?" goes to the Fail state
  exactly when \<open>Attempt\<close>, already incremented, is 10 or more, and to the backoff wait
  exactly when it is less than 10; no other state leads to that Fail state. So the probe
  state runs at most nine times in an execution. Each run invokes the triggering function
  once, and again after each error of the Lambda service, up to six times more; errors of
  the function are not retried. Hence an execution holds at most 9 invocations besides the
  retried ones, at most 54 retried ones, at most 63 in all, and at most 9 when the Lambda
  service raises no error. An execution whose probe message has been fetched and whose
  triggering function fails every invocation ends \<open>Failed\<close> after exactly nine probes,
  which are nine invocations when the errors are the function's: there is never a tenth
  probe.
\<close>

theorem probes_bounded:
  "(input x = Some inc \<longrightarrow>
        (status (step props env ExceededRetryChoice x) = Running ExceededRetryAttempts)
          = (10 \<le> Attempt inc)
        \<and> (status (step props env ExceededRetryChoice x) = Running WaitAndRetry)
          = (Attempt inc < 10))
   \<and> (status x = Running s \<and> s \<noteq> ExceededRetryChoice
      \<longrightarrow> status (step props env s x) \<noteq> Running ExceededRetryAttempts)
   \<and> length (invocations (trace (run props env)))
       \<le> length (invoke_retry_waits (trace (run props env))) + 9
   \<and> length (invoke_retry_waits (trace (run props env))) \<le> 54
   \<and> length (invocations (trace (run props env))) \<le> 63
   \<and> ((\<forall>k. \<not> service_error env k) \<longrightarrow> length (invocations (trace (run props env))) \<le> 9)
   \<and> (status x = Running TriggerLambda \<and> input x = Some inc \<and> Messages inc = m # ms
        \<and> retried x = 0
        \<and> (\<forall>i\<le>6. \<not> worker_ok env (length (invocations (trace x)) + i)
                  \<and> service_error env (length (invocations (trace x)) + i)) \<longrightarrow>
      exec props env x =
        exec props env
          (x\<lparr>status := Running IncrementFailureAndTime, retried := 0,
             trace := trace x
               @ concat (map (\<lambda>i. [LambdaInvoke (Body m) False, InvokeRetryWaited (2 * 2 ^ i)])
                           [0..<6])
               @ [LambdaInvoke (Body m) False]\<rparr>))
   \<and> (toggle_ok env DisableMapping \<and> receive_ok env j \<and> j \<le> 5 \<and> queue env \<noteq> []
        \<and> (\<forall>k. \<not> worker_ok env k)
      \<longrightarrow> status (run props env) = Failed
          \<and> length (invocations (trace (run props env)))
              = length (invoke_retry_waits (trace (run props env))) + 9)
   \<and> (toggle_ok env DisableMapping \<and> receive_ok env j \<and> j \<le> 5 \<and> queue env \<noteq> []
        \<and> (\<forall>k. \<not> worker_ok env k) \<and> (\<forall>k. \<not> service_error env k)
      \<longrightarrow> status (run props env) = Failed
          \<and> length (invocations (trace (run props env))) = 9)"
proof -
  let ?tr = "trace (run props env)"
  have 1: "input x = Some inc \<longrightarrow>
        (status (step props env ExceededRetryChoice x) = Running ExceededRetryAttempts)
          = (10 \<le> Attempt inc)
        \<and> (status (step props env ExceededRetryChoice x) = Running WaitAndRetry)
          = (Attempt inc < 10)"
    by auto
  have 2: "status x = Running s \<and> s \<noteq> ExceededRetryChoice \<longrightarrow>
        status (step props env s x) \<noteq> Running ExceededRetryAttempts"
    by (cases s) (auto simp: task_defs split: option.splits list.splits)
  have 3: "length (invocations ?tr) \<le> length (invoke_retry_waits ?tr) + 9
      \<and> length (invoke_retry_waits ?tr) \<le> 54"
    using backoff_inv_run [of props env] by (simp add: backoff_inv_def Let_def)
  then have 4: "length (invocations ?tr) \<le> 63"
    by linarith
  have 5: "length (invocations ?tr) \<le> 9" if "\<forall>k. \<not> service_error env k"
    using 3 unretried_run [OF that, of props] by simp
  have 6: "exec props env x =
        exec props env
          (x\<lparr>status := Running IncrementFailureAndTime, retried := 0,
             trace := trace x
               @ concat (map (\<lambda>i. [LambdaInvoke (Body m) False, InvokeRetryWaited (2 * 2 ^ i)])
                           [0..<6])
               @ [LambdaInvoke (Body m) False]\<rparr>)"
    if "status x = Running TriggerLambda \<and> input x = Some inc \<and> Messages inc = m # ms
        \<and> retried x = 0
        \<and> (\<forall>i\<le>6. \<not> worker_ok env (length (invocations (trace x)) + i)
                  \<and> service_error env (length (invocations (trace x)) + i))"
    using invoke_retries_exhausted [of x inc m ms 6 env props] that by simp
  have 7: "status (run props env) = Failed
          \<and> length (invocations ?tr) = length (invoke_retry_waits ?tr) + 9"
    if "toggle_ok env DisableMapping \<and> receive_ok env j \<and> j \<le> 5 \<and> queue env \<noteq> []
        \<and> (\<forall>k. \<not> worker_ok env k)"
    using that exhausted_counts(1,3) by blast
  have 8: "status (run props env) = Failed \<and> length (invocations ?tr) = 9"
    if "toggle_ok env DisableMapping \<and> receive_ok env j \<and> j \<le> 5 \<and> queue env \<noteq> []
        \<and> (\<forall>k. \<not> worker_ok env k) \<and> (\<forall>k. \<not> service_error env k)"
    using 7 that unretried_run [of env props] by simp
  show ?thesis
    using 1 2 3 4 5 6 7 8 by blast
qed

text \<open>
  The example stack with a triggering function that always fails with an error of its
  own, the same stack when every invocation fails with an error of the Lambda service,
  and the Choice at \<open>Attempt = 10\<close>.
\<close>

theorem probes_bounded_witness:
  "(toggle_ok failing_worker DisableMapping \<and> receive_ok failing_worker 0 \<and> (0::nat) \<le> 5
      \<and> queue failing_worker \<noteq> [] \<and> (\<forall>k. \<not> worker_ok failing_worker k)
      \<and> (\<forall>k. \<not> service_error failing_worker k))
   \<and> input (start\<lparr>input := Some \<lparr>Messages = [probe], Attempt = 10, RetryTime = 5120\<rparr>\<rparr>)
       = Some \<lparr>Messages = [probe], Attempt = 10, RetryTime = 5120\<rparr>
   \<and> status (step example_props failing_worker ExceededRetryChoice
        (start\<lparr>input := Some \<lparr>Messages = [probe], Attempt = 10, RetryTime = 5120\<rparr>\<rparr>))
       = Running ExceededRetryAttempts
   \<and> status (start\<lparr>input := Some \<lparr>Messages = [probe], Attempt = 10, RetryTime = 5120\<rparr>\<rparr>)
       = Running DisableMapping
   \<and> DisableMapping \<noteq> ExceededRetryChoice
   \<and> status (run example_props failing_worker) = Failed
   \<and> length (invocations (trace (run example_props failing_worker))) = 9
   \<and> (toggle_ok lambda_outage DisableMapping \<and> receive_ok lambda_outage 0
      \<and> queue lambda_outage \<noteq> []
      \<and> (\<forall>k. \<not> worker_ok lambda_outage k \<and> service_error lambda_outage k))
   \<and> status (run example_props lambda_outage) = Failed
   \<and> length (invocations (trace (run example_props lambda_outage))) = 63
   \<and> length (invoke_retry_waits (trace (run example_props lambda_outage))) = 54
   \<and> exec example_props lambda_outage
        \<lparr>status = Running TriggerLambda,
          input = Some \<lparr>Messages = [probe], Attempt = 1, RetryTime = 10\<rparr>, retried = 0,
          trace = [UpdateEventSourceMapping SqsEventSource False True, Waited WaitState 10,
                   ReceiveMessage 1 True]\<rparr>
       = exec example_props lambda_outage
           \<lparr>status = Running IncrementFailureAndTime,
             input = Some \<lparr>Messages = [probe], Attempt = 1, RetryTime = 10\<rparr>, retried = 0,
             trace = [UpdateEventSourceMapping SqsEventSource False True, Waited WaitState 10,
                      ReceiveMessage 1 True,
                      LambdaInvoke ''order-1'' False, InvokeRetryWaited 2,
                      LambdaInvoke ''order-1'' False, InvokeRetryWaited 4,
                      LambdaInvoke ''order-1'' False, InvokeRetryWaited 8,
                      LambdaInvoke ''order-1'' False, InvokeRetryWaited 16,
                      LambdaInvoke ''order-1'' False, InvokeRetryWaited 32,
                      LambdaInvoke ''order-1'' False, InvokeRetryWaited 64,
                      LambdaInvoke ''order-1'' False]\<rparr>"
proof -
  let ?c = "start\<lparr>input := Some \<lparr>Messages = [probe], Attempt = 10, RetryTime = 5120\<rparr>\<rparr>"
  let ?inc = "\<lparr>Messages = [probe], Attempt = 1, RetryTime = 10\<rparr>"
  let ?p = "\<lparr>status = Running TriggerLambda, input = Some ?inc, retried = 0,
          trace = [UpdateEventSourceMapping SqsEventSource False True, Waited WaitState 10,
                   ReceiveMessage 1 True]\<rparr>"
  have h: "toggle_ok failing_worker DisableMapping \<and> receive_ok failing_worker 0 \<and> (0::nat) \<le> 5
      \<and> queue failing_worker \<noteq> [] \<and> (\<forall>k. \<not> worker_ok failing_worker k)
      \<and> (\<forall>k. \<not> service_error failing_worker k)"
    by (simp add: failing_worker_def healthy_def)
  have g: "toggle_ok lambda_outage DisableMapping \<and> receive_ok lambda_outage 0 \<and> (0::nat) \<le> 5
      \<and> queue lambda_outage \<noteq> []
      \<and> (\<forall>k. \<not> worker_ok lambda_outage k \<and> service_error lambda_outage k)"
    by (simp add: lambda_outage_def healthy_def)
  have l: "status ?p = Running TriggerLambda \<and> input ?p = Some ?inc
      \<and> Messages ?inc = probe # [] \<and> retried ?p = 0"
    by simp
  have u: "[0..<6] = [0, 1, 2, 3, 4, 5::nat]"
    by (simp add: upt_rec)
  have n: "length (invocations (trace (run example_props lambda_outage))) = 63
      \<and> length (invoke_retry_waits (trace (run example_props lambda_outage))) = 54"
    by code_simp
  from probes_bounded [where props = example_props and env = failing_worker and x = ?c
      and inc = "\<lparr>Messages = [probe], Attempt = 10, RetryTime = 5120\<rparr>"
      and s = DisableMapping and j = 0] h
  have a: "status (run example_props failing_worker) = Failed
        \<and> length (invocations (trace (run example_props failing_worker))) = 9"
    by blast
  from probes_bounded [where props = example_props and env = lambda_outage and x = ?p
      and inc = ?inc and m = probe and ms = "[]" and j = 0] g l
  have b: "status (run example_props lambda_outage) = Failed
      \<and> exec example_props lambda_outage ?p =
        exec example_props lambda_outage
          (?p\<lparr>status := Running IncrementFailureAndTime, retried := 0,
             trace := trace ?p
               @ concat (map (\<lambda>i. [LambdaInvoke (Body probe) False,
                                    InvokeRetryWaited (2 * 2 ^ i)])
                           [0..<6])
               @ [LambdaInvoke (Body probe) False]\<rparr>)"
    by blast
  from a b h g n show ?thesis
    by (simp add: start_def probe_def u)
qed

text \<open>
  Claim C2 as stated: ten invocations when every one fails, and \<open>Failed\<close> only when the
  counter exceeds 10. There are nine, and the Choice fails the execution at
  \<open>Attempt = 10\<close>.
\<close>

theorem probes_counterexample:
  "length (invocations (trace (run example_props failing_worker))) \<noteq> 10
   \<and> status (step example_props failing_worker ExceededRetryChoice
        (start\<lparr>input := Some \<lparr>Messages = [probe], Attempt = 10, RetryTime = 5120\<rparr>\<rparr>))
       = Running ExceededRetryAttempts
   \<and> \<not> (10 < Attempt \<lparr>Messages = [probe], Attempt = 10, RetryTime = 5120\<rparr>)"
  by code_simp

section \<open>The delays of the rejitter function\<close>

lemma delay_bounds:
  assumes "1 \<le> JITTER_DELAY penv" and "0 \<le> r" and "r < 1"
  shows "INITIAL_DELAY penv \<le> delay penv r"
    and "delay penv r \<le> INITIAL_DELAY penv + JITTER_DELAY penv - 1"
proof -
  let ?w = "real_of_int (JITTER_DELAY penv - 1)"
  have w: "0 \<le> ?w" using assms(1) by simp
  have "0 \<le> r * ?w" using assms(2) w by simp
  then have lo: "0 \<le> \<lfloor>r * ?w\<rfloor>" by simp
  have "r * ?w \<le> 1 * ?w" using assms(3) w by (intro mult_right_mono) simp_all
  then have hi: "\<lfloor>r * ?w\<rfloor> \<le> JITTER_DELAY penv - 1"
    by (simp add: floor_less_iff)
  show "INITIAL_DELAY penv \<le> delay penv r" using lo by (simp add: delay_def)
  show "delay penv r \<le> INITIAL_DELAY penv + JITTER_DELAY penv - 1"
    using hi by (simp add: delay_def)
qed

lemma handler_nth:
  "i < length records \<Longrightarrow>
   handler penv random records ! i =
     \<lparr>QueueUrl = QUEUE_URL penv, MessageBody = body (records ! i),
      DelaySeconds = delay penv (random i)\<rparr>"
  by (simp add: handler_def nth_enumerate_eq)

text \<open>
  Claim C3. Let the jitter window \<^verbatim>\<open>JITTER_DELAY\<close> be at least one second (for a smaller
  window the range of the claim is empty) and let every draw of \<^verbatim>\<open>Math.random()\<close> lie in
  \<open>[0, 1)\<close>. Then the handler sends one message for each record it drains; its
  \<^verbatim>\<open>DelaySeconds\<close> is an integer between \<^verbatim>\<open>INITIAL_DELAY\<close> and
  \<^verbatim>\<open>INITIAL_DELAY + JITTER_DELAY - 1\<close>, between 60 and 179 under the defaults 60 and 120;
  and its body is the body of the record.
\<close>

theorem rejitter_delay_in_window:
  assumes "1 \<le> rejitterRange props" and "\<forall>i. 0 \<le> random i \<and> random i < 1"
  shows "length (handler (createRejitterLogic_environment url props) random records)
           = length records
         \<and> (\<forall>i<length records.
               backoffDelay props
                 \<le> DelaySeconds (handler (createRejitterLogic_environment url props) random records ! i)
             \<and> DelaySeconds (handler (createRejitterLogic_environment url props) random records ! i)
                 \<le> backoffDelay props + rejitterRange props - 1
             \<and> MessageBody (handler (createRejitterLogic_environment url props) random records ! i)
                 = body (records ! i))
         \<and> (rejitterInitialBackoffDelay props = None \<and> rejitterDelay props = None \<longrightarrow>
               (\<forall>i<length records.
                  60 \<le> DelaySeconds (handler (createRejitterLogic_environment url props) random records ! i)
                \<and> DelaySeconds (handler (createRejitterLogic_environment url props) random records ! i)
                    \<le> 179))"
proof -
  let ?penv = "createRejitterLogic_environment url props"
  have j: "1 \<le> JITTER_DELAY ?penv"
    using assms(1) by (simp add: createRejitterLogic_environment_def)
  have 1: "length (handler ?penv random records) = length records"
    by (simp add: handler_def)
  have 2: "backoffDelay props \<le> DelaySeconds (handler ?penv random records ! i)
      \<and> DelaySeconds (handler ?penv random records ! i)
          \<le> backoffDelay props + rejitterRange props - 1
      \<and> MessageBody (handler ?penv random records ! i) = body (records ! i)"
    if "i < length records" for i
    using delay_bounds [OF j, of "random i"] assms(2) that
    by (simp add: handler_nth createRejitterLogic_environment_def)
  have 3: "60 \<le> DelaySeconds (handler ?penv random records ! i)
      \<and> DelaySeconds (handler ?penv random records ! i) \<le> 179"
    if "i < length records" and "rejitterInitialBackoffDelay props = None \<and> rejitterDelay props = None" for i
    using 2 [OF that(1)] that(2) by (simp add: backoffDelay_def rejitterRange_def)
  show ?thesis
    using 1 2 3 by blast
qed

text \<open>The example stack draining one record, with the draw \<open>1/2\<close>.\<close>

theorem rejitter_delay_in_window_witness:
  "1 \<le> rejitterRange example_props
   \<and> (\<forall>i::nat. (0::real) \<le> 1 / 2 \<and> (1::real) / 2 < 1)
   \<and> (0::nat) < length [\<lparr>body = ''order-2''\<rparr>]
   \<and> rejitterInitialBackoffDelay example_props = None \<and> rejitterDelay example_props = None
   \<and> handler (createRejitterLogic_environment ''queue'' example_props) (\<lambda>i. 1 / 2)
        [\<lparr>body = ''order-2''\<rparr>]
       = [\<lparr>QueueUrl = ''queue'', MessageBody = ''order-2'', DelaySeconds = 119\<rparr>]
   \<and> (60::int) \<le> 119 \<and> (119::int) \<le> 179"
proof -
  have h: "1 \<le> rejitterRange example_props" "\<forall>i::nat. (0::real) \<le> 1 / 2 \<and> (1::real) / 2 < 1"
    by (simp_all add: rejitterRange_def example_props_def)
  have e: "handler (createRejitterLogic_environment ''queue'' example_props) (\<lambda>i. 1 / 2)
        [\<lparr>body = ''order-2''\<rparr>]
       = [\<lparr>QueueUrl = ''queue'', MessageBody = ''order-2'', DelaySeconds = 119\<rparr>]"
    by (simp add: handler_def delay_def createRejitterLogic_environment_def backoffDelay_def
        rejitterRange_def example_props_def)
  from rejitter_delay_in_window [OF h, of "''queue''" "[\<lparr>body = ''order-2''\<rparr>]"]
  have "60 \<le> DelaySeconds (handler (createRejitterLogic_environment ''queue'' example_props)
          (\<lambda>i. 1 / 2) [\<lparr>body = ''order-2''\<rparr>] ! 0)"
    by (simp add: example_props_def)
  with h e show ?thesis
    by (simp add: example_props_def)
qed

section \<open>The fetch of the probe message\<close>

text \<open>
  Claim C4, as amended. When \<^verbatim>\<open>receiveMessage\<close> answers with a message, the state input
  becomes \<open>Attempt = 1\<close> and \<open>RetryTime = 10\<close>, the two literals of the result selector,
  for every value of \<open>initialBackoffDelay\<close>; \<open>RetryTime\<close> is the configured delay only when
  \<open>initialBackoffDelay\<close> is unset or 10.
\<close>

theorem fetch_initialises_incident:
  "(receive_ok env (retried x) \<and> queue env \<noteq> [] \<longrightarrow>
      status (step props env GetTesterMessage x) = Running TriggerLambda
      \<and> input (step props env GetTesterMessage x)
          = Some \<lparr>Messages = [hd (queue env)], Attempt = 1, RetryTime = 10\<rparr>)
   \<and> (receive_ok env (retried x) \<and> queue env \<noteq> []
        \<and> (initialBackoffDelay props = None \<or> initialBackoffDelay props = Some 10) \<longrightarrow>
      map_option RetryTime (input (step props env GetTesterMessage x))
        = Some (defaultTimeout props))"
  by (cases "queue env") (auto simp: task_defs defaultTimeout_def)

text \<open>The example stack at its fetch.\<close>

theorem fetch_initialises_incident_witness:
  "receive_ok healthy
     (retried (step example_props healthy WaitState
                (step example_props healthy DisableMapping start)))
   \<and> queue healthy \<noteq> []
   \<and> (initialBackoffDelay example_props = None \<or> initialBackoffDelay example_props = Some 10)
   \<and> status (step example_props healthy GetTesterMessage
        (step example_props healthy WaitState
          (step example_props healthy DisableMapping start))) = Running TriggerLambda
   \<and> input (step example_props healthy GetTesterMessage
        (step example_props healthy WaitState
          (step example_props healthy DisableMapping start)))
       = Some \<lparr>Messages = [probe], Attempt = 1, RetryTime = 10\<rparr>
   \<and> map_option RetryTime (input (step example_props healthy GetTesterMessage
        (step example_props healthy WaitState
          (step example_props healthy DisableMapping start))))
       = Some (defaultTimeout example_props)"
proof -
  let ?x = "step example_props healthy WaitState
              (step example_props healthy DisableMapping start)"
  have h: "receive_ok healthy (retried ?x) \<and> queue healthy \<noteq> []
      \<and> (initialBackoffDelay example_props = None \<or> initialBackoffDelay example_props = Some 10)"
    by (simp add: healthy_def example_props_def)
  have p: "hd (queue healthy) = probe"
    by (simp add: healthy_def)
  from fetch_initialises_incident [of healthy ?x example_props] h
  have "status (step example_props healthy GetTesterMessage ?x) = Running TriggerLambda
      \<and> input (step example_props healthy GetTesterMessage ?x)
          = Some \<lparr>Messages = [hd (queue healthy)], Attempt = 1, RetryTime = 10\<rparr>
      \<and> map_option RetryTime (input (step example_props healthy GetTesterMessage ?x))
          = Some (defaultTimeout example_props)"
    by blast
  with h p show ?thesis by (simp add: defaultTimeout_def example_props_def)
qed

text \<open>
  Claim C4 as stated: with \<open>initialBackoffDelay = 30\<close> the retry interval would start
  at 30. It starts at 10.
\<close>

theorem fetch_initialises_incident_counterexample:
  "initialBackoffDelay slow_props = Some 30
   \<and> map_option RetryTime
        (input (step slow_props healthy GetTesterMessage
                 (step slow_props healthy WaitState
                   (step slow_props healthy DisableMapping start))))
       \<noteq> Some 30"
  by code_simp

section \<open>The consumer gate\<close>

text \<open>
  Claim C5, as amended. In every execution whose call to disable the mapping of the
  triggering function succeeds, that mapping is disabled after every event of the trace,
  except after the last event of an execution that ends \<open>Succeeded\<close>: the call that
  enables it again. That call succeeds in an execution if and only if the execution ends
  \<open>Succeeded\<close>; it is then the last event, after the call that stops the rejitter drain
  when rejitter is configured; and an execution that ends \<open>Failed\<close> holds no successful
  enabling call.
\<close>

theorem gate_disabled_until_restored:
  "((status (run props env) = Succeeded)
      = (UpdateEventSourceMapping SqsEventSource True True \<in> set (trace (run props env))))
   \<and> ((status (run props env) = Failed)
      = (UpdateEventSourceMapping SqsEventSource True True \<notin> set (trace (run props env))))
   \<and> (status (run props env) = Succeeded \<longrightarrow>
        last (trace (run props env)) = UpdateEventSourceMapping SqsEventSource True True
        \<and> UpdateEventSourceMapping SqsEventSource True True
            \<notin> set (butlast (trace (run props env)))
        \<and> (rejitter props \<longrightarrow>
             UpdateEventSourceMapping RejitterSqsEventSource False True
               \<in> set (butlast (trace (run props env)))))
   \<and> (toggle_ok env DisableMapping \<longrightarrow>
        (\<forall>p. prefix p (trace (run props env)) \<and> p \<noteq> [] \<longrightarrow>
           mapping_enabled SqsEventSource b p
             = (status (run props env) = Succeeded \<and> p = trace (run props env))))"
proof -
  let ?r = "run props env"
  let ?en = "UpdateEventSourceMapping SqsEventSource True True"
  have inv: "gate_inv (toggle_ok env DisableMapping) b props ?r"
    by (rule gate_inv_run)
  have fin: "status ?r = Succeeded \<or> status ?r = Failed"
    by (rule run_terminal)
  have s: "trace ?r \<noteq> [] \<and> last (trace ?r) = ?en \<and> ?en \<notin> set (butlast (trace ?r))
      \<and> (rejitter props \<longrightarrow>
            UpdateEventSourceMapping RejitterSqsEventSource False True \<in> set (butlast (trace ?r)))"
    if "status ?r = Succeeded"
    using inv that by (simp add: gate_inv_def Let_def)
  have f: "?en \<notin> set (trace ?r)" if "status ?r = Failed"
    using inv that by (simp add: gate_inv_def Let_def)
  have 1: "(status ?r = Succeeded) = (?en \<in> set (trace ?r))"
    using fin s f last_in_set by fastforce
  have 2: "(status ?r = Failed) = (?en \<notin> set (trace ?r))"
    using fin 1 by auto
  have 4: "mapping_enabled SqsEventSource b p = (status ?r = Succeeded \<and> p = trace ?r)"
    if d: "toggle_ok env DisableMapping" and p: "prefix p (trace ?r)" "p \<noteq> []" for p
  proof (cases "status ?r = Succeeded")
    case True
    then have tr: "trace ?r = butlast (trace ?r) @ [?en]"
      using s by (metis append_butlast_last_id)
    have off: "always_off SqsEventSource b (butlast (trace ?r))"
      using inv True d by (simp add: gate_inv_def Let_def)
    from p(1) tr have "p = trace ?r \<or> prefix p (butlast (trace ?r))"
      by (metis prefix_snoc)
    then show ?thesis
    proof
      assume e: "p = trace ?r"
      have "mapping_enabled SqsEventSource b (butlast (trace ?r) @ [?en])"
        by simp
      then show ?thesis using e tr True by simp
    next
      assume q: "prefix p (butlast (trace ?r))"
      then have "\<not> mapping_enabled SqsEventSource b p"
        using off p(2) by (simp add: always_off_def)
      moreover have "length p < length (trace ?r)"
        using q s True by (metis prefix_length_le length_butlast
            diff_less length_greater_0_conv less_one order_le_less_trans)
      ultimately show ?thesis by auto
    qed
  next
    case False
    then have "status ?r = Failed" using fin by simp
    then have "always_off SqsEventSource b (trace ?r)"
      using inv d by (simp add: gate_inv_def Let_def)
    then show ?thesis
      using False p by (simp add: always_off_def)
  qed
  show ?thesis
    using 1 2 s 4 by blast
qed

text \<open>The example stack, once with a recovered and once with a failing function.\<close>

theorem gate_disabled_until_restored_witness:
  "toggle_ok healthy DisableMapping \<and> rejitter example_props
   \<and> status (run example_props healthy) = Succeeded
   \<and> UpdateEventSourceMapping SqsEventSource True True \<in> set (trace (run example_props healthy))
   \<and> status (run example_props failing_worker) = Failed
   \<and> UpdateEventSourceMapping SqsEventSource True True
       \<notin> set (trace (run example_props failing_worker))
   \<and> UpdateEventSourceMapping RejitterSqsEventSource False True
       \<in> set (butlast (trace (run example_props healthy)))
   \<and> prefix [UpdateEventSourceMapping SqsEventSource False True, Waited WaitState 10]
        (trace (run example_props healthy))
   \<and> [UpdateEventSourceMapping SqsEventSource False True, Waited WaitState 10] \<noteq> []
   \<and> \<not> mapping_enabled SqsEventSource True
         [UpdateEventSourceMapping SqsEventSource False True, Waited WaitState 10]
   \<and> mapping_enabled SqsEventSource True (trace (run example_props healthy))"
proof -
  have r: "run example_props healthy =
      \<lparr>status = Succeeded, input = None, retried = 0,
       trace = [UpdateEventSourceMapping SqsEventSource False True, Waited WaitState 10,
                ReceiveMessage 1 True, LambdaInvoke ''order-1'' True,
                DeleteMessage ''handle-1'' True,
                UpdateEventSourceMapping RejitterSqsEventSource True True,
                Waited WaitAndDisableJitter 60,
                UpdateEventSourceMapping RejitterSqsEventSource False True,
                UpdateEventSourceMapping SqsEventSource True True]\<rparr>"
    by code_simp
  have f: "status (run example_props failing_worker) = Failed"
    by code_simp
  have h: "toggle_ok healthy DisableMapping" "rejitter example_props"
    by (simp_all add: healthy_def example_props_def)
  have p: "prefix [UpdateEventSourceMapping SqsEventSource False True, Waited WaitState 10]
        (trace (run example_props healthy))
      \<and> [UpdateEventSourceMapping SqsEventSource False True, Waited WaitState 10] \<noteq> []
      \<and> prefix (trace (run example_props healthy)) (trace (run example_props healthy))
      \<and> trace (run example_props healthy) \<noteq> []"
    by (simp add: r)
  from gate_disabled_until_restored [of example_props healthy True] h p r
  have a: "UpdateEventSourceMapping RejitterSqsEventSource False True
       \<in> set (butlast (trace (run example_props healthy)))
     \<and> \<not> mapping_enabled SqsEventSource True
         [UpdateEventSourceMapping SqsEventSource False True, Waited WaitState 10]
     \<and> mapping_enabled SqsEventSource True (trace (run example_props healthy))"
    by (simp del: mapping_enabled_simps)
  from gate_disabled_until_restored [of example_props failing_worker True] f
  have b: "UpdateEventSourceMapping SqsEventSource True True
       \<notin> set (trace (run example_props failing_worker))"
    by blast
  from a b h p f show ?thesis
    by (simp add: r)
qed

text \<open>
  Claim C5 as stated: the gate would be disabled from the start of every execution to its
  terminal state. When the disabling call fails, the execution ends \<open>Failed\<close> with the
  mapping as it was before, enabled.
\<close>

theorem gate_disabled_until_restored_counterexample:
  "status (run example_props gate_failure) = Failed
   \<and> mapping_enabled SqsEventSource True (trace (run example_props gate_failure))"
  by code_simp

text \<open>
  Claim C6. A call of \<^verbatim>\<open>updateEventSourceMapping\<close> has no Retry and no Catch. When the
  disabling call fails, the whole execution is that one call, ending \<open>Failed\<close> with no
  invocation of the triggering function. When the enabling call fails, the execution ends
  \<open>Failed\<close> with that call as its last event. No execution calls either more than once.
\<close>

theorem gate_call_failure_fatal:
  "(\<not> toggle_ok env DisableMapping \<longrightarrow>
      run props env
        = start\<lparr>status := Failed,
                trace := [UpdateEventSourceMapping SqsEventSource False False]\<rparr>
      \<and> invocations (trace (run props env)) = [])
   \<and> (status x = Running EnabledMapping \<and> \<not> toggle_ok env EnabledMapping \<longrightarrow>
      exec props env x
        = x\<lparr>status := Failed,
            trace := trace x @ [UpdateEventSourceMapping SqsEventSource True False]\<rparr>)
   \<and> (\<not> toggle_ok env EnabledMapping \<longrightarrow> status (run props env) = Failed)
   \<and> length (toggles SqsEventSource False (trace (run props env))) = 1
   \<and> length (toggles SqsEventSource True (trace (run props env))) \<le> 1"
proof -
  have 1: "run props env
        = start\<lparr>status := Failed,
                trace := [UpdateEventSourceMapping SqsEventSource False False]\<rparr>"
    if "\<not> toggle_ok env DisableMapping"
    using that
    by (simp add: run_def start_def exec_Running exec_Failed toggleEventSourceMapping_def)
  have 2: "exec props env x
        = x\<lparr>status := Failed,
            trace := trace x @ [UpdateEventSourceMapping SqsEventSource True False]\<rparr>"
    if "status x = Running EnabledMapping \<and> \<not> toggle_ok env EnabledMapping"
    using that by (simp add: exec_Running exec_Failed toggleEventSourceMapping_def)
  have c: "calls_inv env (run props env)"
    by (rule calls_inv_run)
  have 3: "status (run props env) = Failed" if "\<not> toggle_ok env EnabledMapping"
    using c that run_terminal [of props env] by (auto simp: calls_inv_def Let_def)
  have 4: "length (toggles SqsEventSource False (trace (run props env))) = 1
      \<and> length (toggles SqsEventSource True (trace (run props env))) \<le> 1"
    using c run_terminal [of props env] by (auto simp: calls_inv_def Let_def)
  show ?thesis
    using 1 2 3 4 by (simp add: start_def)
qed

text \<open>
  The example stack when every update call fails, and the stack without rejitter when
  only the enabling call fails.
\<close>

theorem gate_call_failure_fatal_witness:
  "\<not> toggle_ok gate_failure DisableMapping
   \<and> run example_props gate_failure
       = \<lparr>status = Failed, input = None, retried = 0,
          trace = [UpdateEventSourceMapping SqsEventSource False False]\<rparr>
   \<and> invocations (trace (run example_props gate_failure)) = []
   \<and> \<not> toggle_ok enable_failure EnabledMapping
   \<and> status (run plain_props enable_failure) = Failed
   \<and> status \<lparr>status = Running EnabledMapping, input = None, retried = 0,
          trace = [UpdateEventSourceMapping SqsEventSource False True, Waited WaitState 10,
                   ReceiveMessage 1 True, LambdaInvoke ''order-1'' True,
                   DeleteMessage ''handle-1'' True]\<rparr> = Running EnabledMapping
   \<and> exec plain_props enable_failure
        \<lparr>status = Running EnabledMapping, input = None, retried = 0,
          trace = [UpdateEventSourceMapping SqsEventSource False True, Waited WaitState 10,
                   ReceiveMessage 1 True, LambdaInvoke ''order-1'' True,
                   DeleteMessage ''handle-1'' True]\<rparr>
       = \<lparr>status = Failed, input = None, retried = 0,
          trace = [UpdateEventSourceMapping SqsEventSource False True, Waited WaitState 10,
                   ReceiveMessage 1 True, LambdaInvoke ''order-1'' True,
                   DeleteMessage ''handle-1'' True,
                   UpdateEventSourceMapping SqsEventSource True False]\<rparr>"
proof -
  let ?x = "\<lparr>status = Running EnabledMapping, input = None, retried = 0,
          trace = [UpdateEventSourceMapping SqsEventSource False True, Waited WaitState 10,
                   ReceiveMessage 1 True, LambdaInvoke ''order-1'' True,
                   DeleteMessage ''handle-1'' True]\<rparr>"
  have h: "\<not> toggle_ok gate_failure DisableMapping" "\<not> toggle_ok enable_failure EnabledMapping"
    "status ?x = Running EnabledMapping"
    by (simp_all add: gate_failure_def enable_failure_def healthy_def)
  from gate_call_failure_fatal [where env = gate_failure and props = example_props] h(1)
  have a: "run example_props gate_failure
      = start\<lparr>status := Failed, trace := [UpdateEventSourceMapping SqsEventSource False False]\<rparr>
      \<and> invocations (trace (run example_props gate_failure)) = []"
    by blast
  from gate_call_failure_fatal [where env = enable_failure and props = plain_props and x = ?x]
    h(2,3)
  have b: "status (run plain_props enable_failure) = Failed
      \<and> exec plain_props enable_failure ?x
        = ?x\<lparr>status := Failed,
            trace := trace ?x @ [UpdateEventSourceMapping SqsEventSource True False]\<rparr>"
    by blast
  from a b h show ?thesis
    by (simp add: start_def)
qed

section \<open>The deletion of the probe message\<close>

text \<open>
  Claim C7. \<^verbatim>\<open>deleteMessage\<close> has no Retry and no Catch: when it fails, the execution
  ends \<open>Failed\<close> with the failed call as its last event, and no execution calls it more
  than once.
\<close>

theorem delete_failure_fatal:
  "(status x = Running DeleteMessageSqs \<and> input x = Some inc \<and> Messages inc = m # ms
      \<and> \<not> delete_ok env \<longrightarrow>
      exec props env x
        = x\<lparr>status := Failed, trace := trace x @ [DeleteMessage (ReceiptHandle m) False]\<rparr>)
   \<and> (\<not> delete_ok env \<longrightarrow> status (run props env) = Failed)
   \<and> length (deletes (trace (run props env))) \<le> 1"
proof -
  have 1: "exec props env x
        = x\<lparr>status := Failed, trace := trace x @ [DeleteMessage (ReceiptHandle m) False]\<rparr>"
    if "status x = Running DeleteMessageSqs \<and> input x = Some inc \<and> Messages inc = m # ms
      \<and> \<not> delete_ok env"
    using that by (simp add: exec_Running exec_Failed deleteSqsTaskAction_def)
  have c: "calls_inv env (run props env)"
    by (rule calls_inv_run)
  have 2: "status (run props env) = Failed" if "\<not> delete_ok env"
    using c that run_terminal [of props env] by (auto simp: calls_inv_def Let_def)
  have 3: "length (deletes (trace (run props env))) \<le> 1"
    using c run_terminal [of props env] by (auto simp: calls_inv_def Let_def)
  show ?thesis
    using 1 2 3 by blast
qed

text \<open>The example stack when the deletion fails.\<close>

theorem delete_failure_fatal_witness:
  "\<not> delete_ok delete_failure
   \<and> status \<lparr>status = Running DeleteMessageSqs,
          input = Some \<lparr>Messages = [probe], Attempt = 1, RetryTime = 10\<rparr>, retried = 0,
          trace = [UpdateEventSourceMapping SqsEventSource False True, Waited WaitState 10,
                   ReceiveMessage 1 True, LambdaInvoke ''order-1'' True]\<rparr>
       = Running DeleteMessageSqs
   \<and> exec example_props delete_failure
        \<lparr>status = Running DeleteMessageSqs,
          input = Some \<lparr>Messages = [probe], Attempt = 1, RetryTime = 10\<rparr>, retried = 0,
          trace = [UpdateEventSourceMapping SqsEventSource False True, Waited WaitState 10,
                   ReceiveMessage 1 True, LambdaInvoke ''order-1'' True]\<rparr>
       = \<lparr>status = Failed,
          input = Some \<lparr>Messages = [probe], Attempt = 1, RetryTime = 10\<rparr>, retried = 0,
          trace = [UpdateEventSourceMapping SqsEventSource False True, Waited WaitState 10,
                   ReceiveMessage 1 True, LambdaInvoke ''order-1'' True,
                   DeleteMessage ''handle-1'' False]\<rparr>
   \<and> status (run example_props delete_failure) = Failed"
proof -
  let ?inc = "\<lparr>Messages = [probe], Attempt = 1, RetryTime = 10\<rparr>"
  let ?x = "\<lparr>status = Running DeleteMessageSqs, input = Some ?inc, retried = 0,
          trace = [UpdateEventSourceMapping SqsEventSource False True, Waited WaitState 10,
                   ReceiveMessage 1 True, LambdaInvoke ''order-1'' True]\<rparr>"
  have h: "\<not> delete_ok delete_failure" "status ?x = Running DeleteMessageSqs"
    "input ?x = Some ?inc" "Messages ?inc = probe # []"
    by (simp_all add: delete_failure_def)
  from delete_failure_fatal [where env = delete_failure and props = example_props
      and x = ?x and inc = ?inc and m = probe and ms = "[]"] h
  have "exec example_props delete_failure ?x
        = ?x\<lparr>status := Failed, trace := trace ?x @ [DeleteMessage (ReceiptHandle probe) False]\<rparr>
      \<and> status (run example_props delete_failure) = Failed"
    by blast
  with h show ?thesis by (simp add: probe_def)
qed

section \<open>The retrier of the fetch\<close>

text \<open>
  Claim C8. Every \<^verbatim>\<open>receiveMessage\<close> asks for at most one message, and one message is what
  the state input holds afterwards. When the call fails \<open>k \<le> 5\<close> times and then answers,
  the retrier has waited 10, 20, ..., \<open>10 * 2 ^ (k - 1)\<close> seconds and the execution goes on
  at the probe with \<open>Attempt = 1\<close> and \<open>RetryTime = 10\<close>, as after a first call that
  answers; when the call fails six times, after five retries, the execution ends \<open>Failed\<close>.
  In every execution there are at most five retries, hence at most six calls.
\<close>

theorem fetch_retry_policy:
  "(status x = Running GetTesterMessage \<and> retried x = 0 \<and> k \<le> 5
      \<and> (\<forall>j<k. \<not> receive_ok env j) \<and> receive_ok env k \<and> queue env \<noteq> [] \<longrightarrow>
      exec props env x =
        exec props env
          (x\<lparr>status := Running TriggerLambda,
             input := Some \<lparr>Messages = [hd (queue env)], Attempt = 1, RetryTime = 10\<rparr>,
             retried := 0,
             trace := trace x
               @ concat (map (\<lambda>j. [ReceiveMessage 1 False, RetryWaited (10 * 2 ^ j)]) [0..<k])
               @ [ReceiveMessage 1 True]\<rparr>))
   \<and> (status x = Running GetTesterMessage \<and> retried x = 0 \<and> (\<forall>j\<le>5. \<not> receive_ok env j) \<longrightarrow>
      exec props env x =
        x\<lparr>status := Failed, retried := 5,
          trace := trace x
            @ concat (map (\<lambda>j. [ReceiveMessage 1 False, RetryWaited (10 * 2 ^ j)]) [0..<5])
            @ [ReceiveMessage 1 False]\<rparr>)
   \<and> set (receives (trace (run props env))) \<subseteq> {ReceiveMessage 1 True, ReceiveMessage 1 False}
   \<and> length (receives (trace (run props env))) \<le> 6
   \<and> length (retry_waits (trace (run props env))) \<le> 5
   \<and> (\<forall>i<length (retry_waits (trace (run props env))).
         retry_waits (trace (run props env)) ! i = 10 * 2 ^ i)"
proof -
  have 1: "exec props env x =
        exec props env
          (x\<lparr>status := Running TriggerLambda,
             input := Some \<lparr>Messages = [hd (queue env)], Attempt = 1, RetryTime = 10\<rparr>,
             retried := 0,
             trace := trace x
               @ concat (map (\<lambda>j. [ReceiveMessage 1 False, RetryWaited (10 * 2 ^ j)]) [0..<k])
               @ [ReceiveMessage 1 True]\<rparr>)"
    if "status x = Running GetTesterMessage \<and> retried x = 0 \<and> k \<le> 5
      \<and> (\<forall>j<k. \<not> receive_ok env j) \<and> receive_ok env k \<and> queue env \<noteq> []"
    using fetch_after_retries [of x k env props] that by simp
  have 2: "exec props env x =
        x\<lparr>status := Failed, retried := 5,
          trace := trace x
            @ concat (map (\<lambda>j. [ReceiveMessage 1 False, RetryWaited (10 * 2 ^ j)]) [0..<5])
            @ [ReceiveMessage 1 False]\<rparr>"
    if "status x = Running GetTesterMessage \<and> retried x = 0 \<and> (\<forall>j\<le>5. \<not> receive_ok env j)"
    using fetch_exhausted [of x 5 env props] that by simp
  have 3: "set (receives (trace (run props env))) \<subseteq> {ReceiveMessage 1 True, ReceiveMessage 1 False}
      \<and> length (receives (trace (run props env))) \<le> 6
      \<and> length (retry_waits (trace (run props env))) \<le> 5
      \<and> (\<forall>i<length (retry_waits (trace (run props env))).
            retry_waits (trace (run props env)) ! i = 10 * 2 ^ i)"
    using fetch_inv_run [of props env] by (simp add: fetch_inv_def Let_def)
  show ?thesis
    using 1 2 3 by blast
qed

text \<open>
  The example stack when \<^verbatim>\<open>receiveMessage\<close> fails twice and then answers, and when it
  never answers.
\<close>

theorem fetch_retry_policy_witness:
  "status \<lparr>status = Running GetTesterMessage, input = None, retried = 0,
           trace = [UpdateEventSourceMapping SqsEventSource False True, Waited WaitState 10]\<rparr>
     = Running GetTesterMessage
   \<and> (2::nat) \<le> 5 \<and> \<not> receive_ok flaky_transport 0 \<and> \<not> receive_ok flaky_transport 1
   \<and> receive_ok flaky_transport 2
   \<and> queue flaky_transport \<noteq> []
   \<and> exec example_props flaky_transport
        \<lparr>status = Running GetTesterMessage, input = None, retried = 0,
          trace = [UpdateEventSourceMapping SqsEventSource False True, Waited WaitState 10]\<rparr>
       = exec example_props flaky_transport
           \<lparr>status = Running TriggerLambda,
             input = Some \<lparr>Messages = [probe], Attempt = 1, RetryTime = 10\<rparr>, retried = 0,
             trace = [UpdateEventSourceMapping SqsEventSource False True, Waited WaitState 10,
                      ReceiveMessage 1 False, RetryWaited 10, ReceiveMessage 1 False,
                      RetryWaited 20, ReceiveMessage 1 True]\<rparr>
   \<and> (\<forall>j. \<not> receive_ok (healthy\<lparr>receive_ok := (\<lambda>k. False)\<rparr>) j)
   \<and> exec example_props (healthy\<lparr>receive_ok := (\<lambda>k. False)\<rparr>)
        \<lparr>status = Running GetTesterMessage, input = None, retried = 0,
          trace = [UpdateEventSourceMapping SqsEventSource False True, Waited WaitState 10]\<rparr>
       = \<lparr>status = Failed, input = None, retried = 5,
          trace = [UpdateEventSourceMapping SqsEventSource False True, Waited WaitState 10,
                   ReceiveMessage 1 False, RetryWaited 10, ReceiveMessage 1 False,
                   RetryWaited 20, ReceiveMessage 1 False, RetryWaited 40,
                   ReceiveMessage 1 False, RetryWaited 80, ReceiveMessage 1 False,
                   RetryWaited 160, ReceiveMessage 1 False]\<rparr>
   \<and> retry_waits (trace (run example_props flaky_transport)) = [10, 20]
   \<and> (1::nat) < length (retry_waits (trace (run example_props flaky_transport)))
   \<and> retry_waits (trace (run example_props flaky_transport)) ! 1 = 10 * 2 ^ 1"
proof -
  let ?x = "\<lparr>status = Running GetTesterMessage, input = None, retried = 0,
           trace = [UpdateEventSourceMapping SqsEventSource False True, Waited WaitState 10]\<rparr>"
  let ?dead = "healthy\<lparr>receive_ok := (\<lambda>k. False)\<rparr>"
  have h: "status ?x = Running GetTesterMessage \<and> retried ?x = 0 \<and> (2::nat) \<le> 5
      \<and> (\<forall>j<2. \<not> receive_ok flaky_transport j) \<and> receive_ok flaky_transport 2
      \<and> queue flaky_transport \<noteq> []"
    by (simp add: flaky_transport_def failing_worker_def healthy_def)
  have g: "status ?x = Running GetTesterMessage \<and> retried ?x = 0
      \<and> (\<forall>j\<le>5. \<not> receive_ok ?dead j)"
    by simp
  have q: "hd (queue flaky_transport) = probe"
    by (simp add: flaky_transport_def failing_worker_def healthy_def)
  have u: "[0..<2] = [0, 1::nat]" "[0..<5] = [0, 1, 2, 3, 4::nat]"
    by (simp_all add: upt_rec)
  have w: "retry_waits (trace (run example_props flaky_transport)) = [10, 20]"
    by code_simp
  from fetch_retry_policy [where x = ?x and k = 2 and env = flaky_transport
      and props = example_props] h
  have a: "exec example_props flaky_transport ?x =
        exec example_props flaky_transport
          (?x\<lparr>status := Running TriggerLambda,
             input := Some \<lparr>Messages = [hd (queue flaky_transport)], Attempt = 1, RetryTime = 10\<rparr>,
             retried := 0,
             trace := trace ?x
               @ concat (map (\<lambda>j. [ReceiveMessage 1 False, RetryWaited (10 * 2 ^ j)]) [0..<2])
               @ [ReceiveMessage 1 True]\<rparr>)"
    by blast
  from fetch_retry_policy [where x = ?x and env = ?dead and props = example_props] g
  have b: "exec example_props ?dead ?x =
        ?x\<lparr>status := Failed, retried := 5,
          trace := trace ?x
            @ concat (map (\<lambda>j. [ReceiveMessage 1 False, RetryWaited (10 * 2 ^ j)]) [0..<5])
            @ [ReceiveMessage 1 False]\<rparr>"
    by blast
  have n: "\<not> receive_ok flaky_transport 0 \<and> \<not> receive_ok flaky_transport 1"
    by (simp add: flaky_transport_def)
  from a b h g q w n show ?thesis
    by (simp add: u)
qed

section \<open>The backoff step\<close>

text \<open>
  Claim C9. The Pass state after a failed probe changes \<open>Attempt\<close>, by one, and
  \<open>RetryTime\<close>, and nothing else of the state input: \<open>Messages\<close> is copied. The Catch that
  leads to it discards the error and keeps the state input; so does the retrier of the
  invocation, which invokes again with the same message after an error of the Lambda
  service. So after a failed probe below the ceiling the execution goes on at the probe
  with the same message, and the only events in between are the failed invocation and the
  backoff wait: no \<^verbatim>\<open>receiveMessage\<close>. In every execution there is no \<^verbatim>\<open>receiveMessage\<close>
  from the first invocation on, and every invocation carries the body of the one message
  that was fetched.
\<close>

theorem backoff_keeps_probe_unit:
  "incrementFailureAndTime inc
     = inc\<lparr>Attempt := Attempt inc + 1, RetryTime := 2 * RetryTime inc\<rparr>
   \<and> (status x = Running TriggerLambda \<and> input x = Some inc \<and> Messages inc = m # ms
        \<and> \<not> worker_ok env (length (invocations (trace x)))
        \<and> (service_error env (length (invocations (trace x))) \<longrightarrow> 6 \<le> retried x) \<longrightarrow>
      step props env TriggerLambda x
        = x\<lparr>status := Running IncrementFailureAndTime, retried := 0,
            trace := trace x @ [LambdaInvoke (Body m) False]\<rparr>)
   \<and> (status x = Running TriggerLambda \<and> input x = Some inc \<and> Messages inc = m # ms
        \<and> \<not> worker_ok env (length (invocations (trace x)))
        \<and> service_error env (length (invocations (trace x))) \<and> retried x < 6 \<longrightarrow>
      step props env TriggerLambda x
        = x\<lparr>retried := retried x + 1,
            trace := trace x @ [LambdaInvoke (Body m) False,
                                InvokeRetryWaited (2 * 2 ^ retried x)]\<rparr>)
   \<and> (status x = Running TriggerLambda \<and> input x = Some inc \<and> Messages inc = m # ms
        \<and> \<not> worker_ok env (length (invocations (trace x)))
        \<and> (service_error env (length (invocations (trace x))) \<longrightarrow> 6 \<le> retried x)
        \<and> Attempt inc + 1 < 10 \<longrightarrow>
      exec props env x =
        exec props env
          (x\<lparr>retried := 0,
             input := Some (inc\<lparr>Attempt := Attempt inc + 1, RetryTime := 2 * RetryTime inc\<rparr>),
             trace := trace x @ [LambdaInvoke (Body m) False,
                                 Waited WaitAndRetry (2 * RetryTime inc)]\<rparr>))
   \<and> receives (since_first_probe (trace (run props env))) = []
   \<and> set (invocations (trace (run props env)))
       \<subseteq> {LambdaInvoke (Body (hd (queue env))) True,
           LambdaInvoke (Body (hd (queue env))) False}"
proof -
  have 1: "incrementFailureAndTime inc
     = inc\<lparr>Attempt := Attempt inc + 1, RetryTime := 2 * RetryTime inc\<rparr>"
    by (simp add: incrementFailureAndTime_def)
  have 2: "step props env TriggerLambda x
        = x\<lparr>status := Running IncrementFailureAndTime, retried := 0,
            trace := trace x @ [LambdaInvoke (Body m) False]\<rparr>"
    if "status x = Running TriggerLambda \<and> input x = Some inc \<and> Messages inc = m # ms
        \<and> \<not> worker_ok env (length (invocations (trace x)))
        \<and> (service_error env (length (invocations (trace x))) \<longrightarrow> 6 \<le> retried x)"
    using that by (auto simp: triggerLambda_def invoke_maxAttempts_def)
  have 3: "step props env TriggerLambda x
        = x\<lparr>retried := retried x + 1,
            trace := trace x @ [LambdaInvoke (Body m) False,
                                InvokeRetryWaited (2 * 2 ^ retried x)]\<rparr>"
    if "status x = Running TriggerLambda \<and> input x = Some inc \<and> Messages inc = m # ms
        \<and> \<not> worker_ok env (length (invocations (trace x)))
        \<and> service_error env (length (invocations (trace x))) \<and> retried x < 6"
    using that by (simp add: task_defs)
  have 4: "exec props env x =
        exec props env
          (x\<lparr>retried := 0,
             input := Some (inc\<lparr>Attempt := Attempt inc + 1, RetryTime := 2 * RetryTime inc\<rparr>),
             trace := trace x @ [LambdaInvoke (Body m) False,
                                 Waited WaitAndRetry (2 * RetryTime inc)]\<rparr>)"
    if "status x = Running TriggerLambda \<and> input x = Some inc \<and> Messages inc = m # ms
        \<and> \<not> worker_ok env (length (invocations (trace x)))
        \<and> (service_error env (length (invocations (trace x))) \<longrightarrow> 6 \<le> retried x)
        \<and> Attempt inc + 1 < 10"
    using retry_round [of x inc m ms env props] that by simp
  have 5: "receives (since_first_probe (trace (run props env))) = []
      \<and> set (invocations (trace (run props env)))
          \<subseteq> {LambdaInvoke (Body (hd (queue env))) True,
              LambdaInvoke (Body (hd (queue env))) False}"
    using probe_inv_run [of env props] by (simp add: probe_inv_def)
  show ?thesis
    using 1 2 3 4 5 by blast
qed

text \<open>
  The first probe of the example stack, with a function that fails with an error of its
  own, and with an invocation that fails with an error of the Lambda service.
\<close>

theorem backoff_keeps_probe_unit_witness:
  "status \<lparr>status = Running TriggerLambda,
           input = Some \<lparr>Messages = [probe], Attempt = 1, RetryTime = 10\<rparr>, retried = 0,
           trace = [UpdateEventSourceMapping SqsEventSource False True, Waited WaitState 10,
                    ReceiveMessage 1 True]\<rparr> = Running TriggerLambda
   \<and> \<not> worker_ok failing_worker
         (length (invocations [UpdateEventSourceMapping SqsEventSource False True,
                               Waited WaitState 10, ReceiveMessage 1 True]))
   \<and> \<not> service_error failing_worker
         (length (invocations [UpdateEventSourceMapping SqsEventSource False True,
                               Waited WaitState 10, ReceiveMessage 1 True]))
   \<and> Attempt \<lparr>Messages = [probe], Attempt = 1, RetryTime = 10\<rparr> + 1 < 10
   \<and> step example_props failing_worker TriggerLambda
        \<lparr>status = Running TriggerLambda,
          input = Some \<lparr>Messages = [probe], Attempt = 1, RetryTime = 10\<rparr>, retried = 0,
          trace = [UpdateEventSourceMapping SqsEventSource False True, Waited WaitState 10,
                   ReceiveMessage 1 True]\<rparr>
       = \<lparr>status = Running IncrementFailureAndTime,
          input = Some \<lparr>Messages = [probe], Attempt = 1, RetryTime = 10\<rparr>, retried = 0,
          trace = [UpdateEventSourceMapping SqsEventSource False True, Waited WaitState 10,
                   ReceiveMessage 1 True, LambdaInvoke ''order-1'' False]\<rparr>
   \<and> exec example_props failing_worker
        \<lparr>status = Running TriggerLambda,
          input = Some \<lparr>Messages = [probe], Attempt = 1, RetryTime = 10\<rparr>, retried = 0,
          trace = [UpdateEventSourceMapping SqsEventSource False True, Waited WaitState 10,
                   ReceiveMessage 1 True]\<rparr>
       = exec example_props failing_worker
           \<lparr>status = Running TriggerLambda,
             input = Some \<lparr>Messages = [probe], Attempt = 2, RetryTime = 20\<rparr>, retried = 0,
             trace = [UpdateEventSourceMapping SqsEventSource False True, Waited WaitState 10,
                      ReceiveMessage 1 True, LambdaInvoke ''order-1'' False,
                      Waited WaitAndRetry 20]\<rparr>
   \<and> \<not> worker_ok lambda_outage
         (length (invocations [UpdateEventSourceMapping SqsEventSource False True,
                               Waited WaitState 10, ReceiveMessage 1 True]))
   \<and> service_error lambda_outage
         (length (invocations [UpdateEventSourceMapping SqsEventSource False True,
                               Waited WaitState 10, ReceiveMessage 1 True]))
   \<and> step example_props lambda_outage TriggerLambda
        \<lparr>status = Running TriggerLambda,
          input = Some \<lparr>Messages = [probe], Attempt = 1, RetryTime = 10\<rparr>, retried = 0,
          trace = [UpdateEventSourceMapping SqsEventSource False True, Waited WaitState 10,
                   ReceiveMessage 1 True]\<rparr>
       = \<lparr>status = Running TriggerLambda,
          input = Some \<lparr>Messages = [probe], Attempt = 1, RetryTime = 10\<rparr>, retried = 1,
          trace = [UpdateEventSourceMapping SqsEventSource False True, Waited WaitState 10,
                   ReceiveMessage 1 True, LambdaInvoke ''order-1'' False,
                   InvokeRetryWaited 2]\<rparr>"
proof -
  let ?inc = "\<lparr>Messages = [probe], Attempt = 1, RetryTime = 10\<rparr>"
  let ?x = "\<lparr>status = Running TriggerLambda, input = Some ?inc, retried = 0,
           trace = [UpdateEventSourceMapping SqsEventSource False True, Waited WaitState 10,
                    ReceiveMessage 1 True]\<rparr>"
  have h: "status ?x = Running TriggerLambda \<and> input ?x = Some ?inc
      \<and> Messages ?inc = probe # []
      \<and> \<not> worker_ok failing_worker (length (invocations (trace ?x)))
      \<and> \<not> service_error failing_worker (length (invocations (trace ?x)))
      \<and> Attempt ?inc + 1 < 10"
    by (simp add: failing_worker_def healthy_def)
  have g: "status ?x = Running TriggerLambda \<and> input ?x = Some ?inc
      \<and> Messages ?inc = probe # []
      \<and> \<not> worker_ok lambda_outage (length (invocations (trace ?x)))
      \<and> service_error lambda_outage (length (invocations (trace ?x)))
      \<and> retried ?x < 6"
    by (simp add: lambda_outage_def)
  from backoff_keeps_probe_unit [where x = ?x and inc = ?inc and m = probe and ms = "[]"
      and env = failing_worker and props = example_props] h
  have a: "step example_props failing_worker TriggerLambda ?x
        = ?x\<lparr>status := Running IncrementFailureAndTime, retried := 0,
            trace := trace ?x @ [LambdaInvoke (Body probe) False]\<rparr>
      \<and> exec example_props failing_worker ?x =
        exec example_props failing_worker
          (?x\<lparr>retried := 0,
             input := Some (?inc\<lparr>Attempt := Attempt ?inc + 1, RetryTime := 2 * RetryTime ?inc\<rparr>),
             trace := trace ?x @ [LambdaInvoke (Body probe) False,
                                  Waited WaitAndRetry (2 * RetryTime ?inc)]\<rparr>)"
    by blast
  from backoff_keeps_probe_unit [where x = ?x and inc = ?inc and m = probe and ms = "[]"
      and env = lambda_outage and props = example_props] g
  have b: "step example_props lambda_outage TriggerLambda ?x
        = ?x\<lparr>retried := retried ?x + 1,
            trace := trace ?x @ [LambdaInvoke (Body probe) False,
                                 InvokeRetryWaited (2 * 2 ^ retried ?x)]\<rparr>"
    by blast
  from a b h g show ?thesis
    by (simp add: probe_def)
qed

section \<open>The rejitter stage\<close>

text \<open>
  Claim C10, as amended. The mapping of the rejitter function is created disabled. In
  every execution that starts with it so, whenever it is enabled after a prefix of the
  trace, the call that enables it has succeeded in that prefix and the call that disables
  it has not; it is disabled at the end of every execution that ends \<open>Succeeded\<close>. After
  the enabling call has succeeded, the execution waits \<open>rejitterInitialBackoffDelay\<close>
  seconds (60 by default) and then issues the disabling call, with no condition in
  between; when that call fails, the execution ends \<open>Failed\<close>.
\<close>

theorem rejitter_drain_window:
  "\<not> rejitterSqsEventSource_created
   \<and> (\<forall>p. prefix p (trace (run props env))
          \<and> mapping_enabled RejitterSqsEventSource rejitterSqsEventSource_created p \<longrightarrow>
        UpdateEventSourceMapping RejitterSqsEventSource True True \<in> set p
        \<and> UpdateEventSourceMapping RejitterSqsEventSource False True \<notin> set p)
   \<and> (status (run props env) = Succeeded \<longrightarrow>
        \<not> mapping_enabled RejitterSqsEventSource rejitterSqsEventSource_created
            (trace (run props env)))
   \<and> (status x = Running EnableRejitter \<and> toggle_ok env EnableRejitter \<longrightarrow>
        exec props env x =
          exec props env
            (x\<lparr>status := (if toggle_ok env DisableRejitter then Running EnabledMapping
                            else Failed),
               input := None,
               trace := trace x
                 @ [UpdateEventSourceMapping RejitterSqsEventSource True True,
                    Waited WaitAndDisableJitter (backoffDelay props),
                    UpdateEventSourceMapping RejitterSqsEventSource False
                      (toggle_ok env DisableRejitter)]\<rparr>))"
proof -
  have 1: "\<not> rejitterSqsEventSource_created"
    by (simp add: rejitterSqsEventSource_created_def)
  have d: "drain_inv (run props env)"
    by (rule drain_inv_run)
  then have 2: "\<forall>p. prefix p (trace (run props env))
          \<and> mapping_enabled RejitterSqsEventSource rejitterSqsEventSource_created p \<longrightarrow>
        UpdateEventSourceMapping RejitterSqsEventSource True True \<in> set p
        \<and> UpdateEventSourceMapping RejitterSqsEventSource False True \<notin> set p"
    by (simp add: drain_inv_def Let_def windowed_def)
  have 3: "\<not> mapping_enabled RejitterSqsEventSource rejitterSqsEventSource_created
            (trace (run props env))"
    if "status (run props env) = Succeeded"
    using d that by (simp add: drain_inv_def Let_def)
  have 4: "exec props env x =
          exec props env
            (x\<lparr>status := (if toggle_ok env DisableRejitter then Running EnabledMapping
                            else Failed),
               input := None,
               trace := trace x
                 @ [UpdateEventSourceMapping RejitterSqsEventSource True True,
                    Waited WaitAndDisableJitter (backoffDelay props),
                    UpdateEventSourceMapping RejitterSqsEventSource False
                      (toggle_ok env DisableRejitter)]\<rparr>)"
    if "status x = Running EnableRejitter \<and> toggle_ok env EnableRejitter"
    using rejitter_stage [of x env props] that by simp
  show ?thesis
    using 1 2 3 4 by blast
qed

text \<open>The example stack with a recovered function, during and after its rejitter stage.\<close>

theorem rejitter_drain_window_witness:
  "prefix [UpdateEventSourceMapping SqsEventSource False True, Waited WaitState 10,
           ReceiveMessage 1 True, LambdaInvoke ''order-1'' True,
           DeleteMessage ''handle-1'' True,
           UpdateEventSourceMapping RejitterSqsEventSource True True,
           Waited WaitAndDisableJitter 60]
     (trace (run example_props healthy))
   \<and> mapping_enabled RejitterSqsEventSource rejitterSqsEventSource_created
        [UpdateEventSourceMapping SqsEventSource False True, Waited WaitState 10,
         ReceiveMessage 1 True, LambdaInvoke ''order-1'' True,
         DeleteMessage ''handle-1'' True,
         UpdateEventSourceMapping RejitterSqsEventSource True True,
         Waited WaitAndDisableJitter 60]
   \<and> UpdateEventSourceMapping RejitterSqsEventSource False True
       \<notin> set [UpdateEventSourceMapping SqsEventSource False True, Waited WaitState 10,
              ReceiveMessage 1 True, LambdaInvoke ''order-1'' True,
              DeleteMessage ''handle-1'' True,
              UpdateEventSourceMapping RejitterSqsEventSource True True,
              Waited WaitAndDisableJitter 60]
   \<and> status (run example_props healthy) = Succeeded
   \<and> \<not> mapping_enabled RejitterSqsEventSource rejitterSqsEventSource_created
         (trace (run example_props healthy))
   \<and> status \<lparr>status = Running EnableRejitter, input = None, retried = 0,
          trace = [UpdateEventSourceMapping SqsEventSource False True, Waited WaitState 10,
                   ReceiveMessage 1 True, LambdaInvoke ''order-1'' True,
                   DeleteMessage ''handle-1'' True]\<rparr> = Running EnableRejitter
   \<and> toggle_ok healthy EnableRejitter
   \<and> exec example_props healthy
        \<lparr>status = Running EnableRejitter, input = None, retried = 0,
          trace = [UpdateEventSourceMapping SqsEventSource False True, Waited WaitState 10,
                   ReceiveMessage 1 True, LambdaInvoke ''order-1'' True,
                   DeleteMessage ''handle-1'' True]\<rparr>
       = exec example_props healthy
           \<lparr>status = Running EnabledMapping, input = None, retried = 0,
             trace = [UpdateEventSourceMapping SqsEventSource False True, Waited WaitState 10,
                      ReceiveMessage 1 True, LambdaInvoke ''order-1'' True,
                      DeleteMessage ''handle-1'' True,
                      UpdateEventSourceMapping RejitterSqsEventSource True True,
                      Waited WaitAndDisableJitter 60,
                      UpdateEventSourceMapping RejitterSqsEventSource False True]\<rparr>"
proof -
  let ?x = "\<lparr>status = Running EnableRejitter, input = None, retried = 0,
          trace = [UpdateEventSourceMapping SqsEventSource False True, Waited WaitState 10,
                   ReceiveMessage 1 True, LambdaInvoke ''order-1'' True,
                   DeleteMessage ''handle-1'' True]\<rparr>"
  have r: "run example_props healthy =
      \<lparr>status = Succeeded, input = None, retried = 0,
       trace = [UpdateEventSourceMapping SqsEventSource False True, Waited WaitState 10,
                ReceiveMessage 1 True, LambdaInvoke ''order-1'' True,
                DeleteMessage ''handle-1'' True,
                UpdateEventSourceMapping RejitterSqsEventSource True True,
                Waited WaitAndDisableJitter 60,
                UpdateEventSourceMapping RejitterSqsEventSource False True,
                UpdateEventSourceMapping SqsEventSource True True]\<rparr>"
    by code_simp
  have h: "status ?x = Running EnableRejitter \<and> toggle_ok healthy EnableRejitter"
    "toggle_ok healthy DisableRejitter" "backoffDelay example_props = 60"
    by (simp_all add: healthy_def backoffDelay_def example_props_def)
  have t: "status (run example_props healthy) = Succeeded"
    by (simp add: r)
  from rejitter_drain_window [where props = example_props and env = healthy and x = ?x] h(1) t
  have a: "\<not> mapping_enabled RejitterSqsEventSource rejitterSqsEventSource_created
            (trace (run example_props healthy))
      \<and> exec example_props healthy ?x =
          exec example_props healthy
            (?x\<lparr>status := (if toggle_ok healthy DisableRejitter then Running EnabledMapping
                             else Failed),
                input := None,
                trace := trace ?x
                  @ [UpdateEventSourceMapping RejitterSqsEventSource True True,
                     Waited WaitAndDisableJitter (backoffDelay example_props),
                     UpdateEventSourceMapping RejitterSqsEventSource False
                       (toggle_ok healthy DisableRejitter)]\<rparr>)"
    by blast
  have b: "mapping_enabled RejitterSqsEventSource rejitterSqsEventSource_created
        [UpdateEventSourceMapping SqsEventSource False True, Waited WaitState 10,
         ReceiveMessage 1 True, LambdaInvoke ''order-1'' True,
         DeleteMessage ''handle-1'' True,
         UpdateEventSourceMapping RejitterSqsEventSource True True,
         Waited WaitAndDisableJitter 60]"
    by (simp add: rejitterSqsEventSource_created_def)
  have p: "prefix [UpdateEventSourceMapping SqsEventSource False True, Waited WaitState 10,
           ReceiveMessage 1 True, LambdaInvoke ''order-1'' True,
           DeleteMessage ''handle-1'' True,
           UpdateEventSourceMapping RejitterSqsEventSource True True,
           Waited WaitAndDisableJitter 60]
     (trace (run example_props healthy))"
    by (simp add: r)
  from rejitter_drain_window [where props = example_props and env = healthy] p b
  have c: "UpdateEventSourceMapping RejitterSqsEventSource False True
       \<notin> set [UpdateEventSourceMapping SqsEventSource False True, Waited WaitState 10,
              ReceiveMessage 1 True, LambdaInvoke ''order-1'' True,
              DeleteMessage ''handle-1'' True,
              UpdateEventSourceMapping RejitterSqsEventSource True True,
              Waited WaitAndDisableJitter 60]"
    by blast
  from a b c h t p show ?thesis
    by (simp del: mapping_enabled_simps)
qed

text \<open>
  Claim C10 as stated: nothing would flow through the drain after the step that disables
  it. When that call fails, the execution ends \<open>Failed\<close> and the mapping of the rejitter
  function is still enabled.
\<close>

theorem rejitter_drain_window_counterexample:
  "status (run example_props rejitter_stop_failure) = Failed
   \<and> last (trace (run example_props rejitter_stop_failure))
       = UpdateEventSourceMapping RejitterSqsEventSource False False
   \<and> mapping_enabled RejitterSqsEventSource rejitterSqsEventSource_created
       (trace (run example_props rejitter_stop_failure))"
  by code_simp

end
